theory Spec2Isabelle
  imports Main "HOL-Library.Word" "HOL-Library.Sublist"
begin

unbundle bit_operations_syntax

section \<open>The Alephium REST client (pkg/dia/helpers/alephium-helper/client.go)\<close>

text \<open>
  The client talks to two REST endpoints through one gateway function, \<open>callAPI\<close>, and
  builds pool discovery, token-pair resolution, token metadata resolution and event
  filtering on top of it. The embedding follows the Go source function by function.
  Everything the Go code does besides returning a value is explicit here:
  \<^item> a Go \<open>error\<close> is a value of \<open>go_error\<close>, and a \<open>(value, error)\<close> result is a pair
    whose second component is \<open>None\<close> for \<open>nil\<close>;
  \<^item> a run-time panic (index out of range) and \<open>logger.Fatalf\<close> (which ends the process)
    are constructors of \<open>outcome\<close>;
  \<^item> HTTP requests, log lines, the rate-limit sleep and closing the body are entries of an
    effect trace that every effectful function takes and returns extended;
  \<^item> the package variable \<open>ALPHNativeToken\<close> is state that the function reading it
    takes as an argument, and a pointer to it is a value of its own.
\<close>

subsection \<open>Constants\<close>

definition BackendURL :: string where
  "BackendURL = ''https://backend.mainnet.alephium.org''"

definition NodeURL :: string where
  "NodeURL = ''https://node.mainnet.alephium.org''"

definition AYINPairContractAddress :: string where
  "AYINPairContractAddress = ''vyrkJHG49TXss6pGAz2dVxq5o7mBXNNXAV18nAeqVT1R''"

definition SymbolMethod :: nat where "SymbolMethod = 0"
definition NameMethod :: nat where "NameMethod = 1"
definition DecimalsMethod :: nat where "DecimalsMethod = 2"
definition TokenPairMethod :: int where "TokenPairMethod = 7"

definition SwapEventIndex :: int where "SwapEventIndex = 2"

subsection \<open>Errors, outcomes and effects\<close>

datatype num_err = ErrSyntax | ErrRange

text \<open>
  A Go \<open>error\<close> value. \<open>ErrorsNew msg\<close> is \<open>errors.New(msg)\<close>, the only way client.go
  itself makes an error; \<open>NumError fn num e\<close> is the \<open>*strconv.NumError\<close> of
  \<open>strconv.ParseUint\<close>; \<open>Foreign msg\<close> is an error made by a collaborator (net/http,
  encoding/json, the address codec).
\<close>

datatype go_error =
    ErrorsNew string
  | NumError string string num_err
  | Foreign string

text \<open>
  How a call of a Go function ends: it returns, it panics (an index out of range), or the
  process exits inside \<open>logger.Fatalf\<close>.
\<close>

datatype 'a outcome = Return 'a | Panic string | Fatal string

record request =
  Method :: string
  URL :: string
  RequestBody :: string

text \<open>
  An HTTP response as \<open>callAPI\<close> uses it: the status code, the bytes \<open>io.ReadAll\<close> gives
  for the body (its error is discarded by the source), and what \<open>resp.Body.Close()\<close>
  returns.
\<close>

record response =
  StatusCode :: int
  Body :: string
  CloseResult :: "go_error option"

datatype effect =
    HTTPDo request
  | LogPrintf string
  | ReadAll
  | LogAPIFailure go_error int string string
  | LogError string go_error
  | Sleep int
  | BodyClose

text \<open>
  The collaborators of \<open>callAPI\<close> in net/http: \<open>httputil.DumpRequestOut\<close>,
  \<open>HTTPClient.Do\<close> and \<open>httputil.DumpResponse\<close>. What the server answers may depend on
  everything that happened before, so \<open>Do\<close> reads the trace.
\<close>

record http_env =
  DumpRequestOut :: "request \<Rightarrow> go_error + string"
  Do :: "effect list \<Rightarrow> request \<Rightarrow> go_error + response"
  DumpResponse :: "response \<Rightarrow> go_error + string"

text \<open>
  \<open>AlephiumClient\<close>: the fields \<open>HTTPClient\<close> and \<open>logger\<close> are the \<open>http_env\<close> and the
  trace; \<open>sleepBetweenCalls\<close> is a \<open>time.Duration\<close> (an integer count of nanoseconds).
\<close>

record AlephiumClient =
  Debug :: bool
  sleepBetweenCalls :: int

text \<open>
  \<open>http.NewRequest\<close> fails only on an invalid method or a URL that does not parse. The
  source calls it with \<open>GET\<close> or \<open>POST\<close> and a URL that is a constant, or a constant
  with a decimal number in it, so the request is always built.
\<close>

definition NewRequest :: "string \<Rightarrow> string \<Rightarrow> string \<Rightarrow> request" where
  "NewRequest m u b = \<lparr>Method = m, URL = u, RequestBody = b\<rparr>"

definition waiting :: "AlephiumClient \<Rightarrow> effect list \<Rightarrow> effect list" where
  "waiting c tr = tr @ [Sleep (sleepBetweenCalls c)]"

subsection \<open>callAPI\<close>

text \<open>The two \<open>if c.Debug\<close> blocks of \<open>callAPI\<close>: a failed dump ends the call.\<close>

definition debug_request ::
  "AlephiumClient \<Rightarrow> http_env \<Rightarrow> request \<Rightarrow> effect list \<Rightarrow> go_error + effect list" where
  "debug_request c env rq tr =
     (if Debug c
      then (case DumpRequestOut env rq of
              Inl err \<Rightarrow> Inl err
            | Inr dump \<Rightarrow> Inr (tr @ [LogPrintf dump]))
      else Inr tr)"

definition debug_response ::
  "AlephiumClient \<Rightarrow> http_env \<Rightarrow> response \<Rightarrow> effect list \<Rightarrow> go_error + effect list" where
  "debug_response c env resp tr =
     (if Debug c
      then (case DumpResponse env resp of
              Inl err \<Rightarrow> Inl err
            | Inr dump \<Rightarrow> Inr (tr @ [LogPrintf dump]))
      else Inr tr)"

text \<open>
  \<open>callAPI request target\<close>. \<open>target\<close> is a pointer to the caller's result variable;
  \<open>json.Unmarshal\<close> writes through it, also when it fails, so the decoder takes the
  variable's value and returns the new one with its error. The function returns its
  error, the value of the result variable afterwards, and the trace.
\<close>

definition callAPI ::
  "AlephiumClient \<Rightarrow> http_env \<Rightarrow> (string \<Rightarrow> 't \<Rightarrow> 't \<times> go_error option) \<Rightarrow>
   request \<Rightarrow> 't \<Rightarrow> effect list \<Rightarrow> go_error option \<times> 't \<times> effect list" where
  "callAPI c env unmarshal rq target tr =
     (case debug_request c env rq tr of
        Inl err \<Rightarrow> (Some err, target, tr)
      | Inr tr1 \<Rightarrow>
          (case Do env tr1 rq of
             Inl err \<Rightarrow> (Some err, target, tr1 @ [HTTPDo rq])
           | Inr resp \<Rightarrow>
               (case debug_response c env resp (tr1 @ [HTTPDo rq]) of
                  Inl err \<Rightarrow> (Some err, target, tr1 @ [HTTPDo rq])
                | Inr tr2 \<Rightarrow>
                    (let data = Body resp; tr3 = tr2 @ [ReadAll] in
                     if StatusCode resp \<noteq> 200
                     then (let err = ErrorsNew ''not 200 http response code from api'' in
                           (Some err, target,
                            tr3 @ [LogAPIFailure err (StatusCode resp) data (URL rq)]))
                     else (case unmarshal data target of
                             (target', Some err) \<Rightarrow> (Some err, target', tr3)
                           | (target', None) \<Rightarrow>
                               (CloseResult resp, target', waiting c tr3 @ [BodyClose]))))))"

subsection \<open>Formatting integers\<close>

text \<open>The verb \<open>%d\<close> of \<open>fmt.Sprintf\<close> on an \<open>int\<close>: decimal digits, a minus sign first.\<close>

fun nat_digits :: "nat \<Rightarrow> string" where
  "nat_digits n =
     (if n < 10 then [char_of (48 + n)]
      else nat_digits (n div 10) @ [char_of (48 + n mod 10)])"

declare nat_digits.simps [simp del]

definition Sprint_d :: "int \<Rightarrow> string" where
  "Sprint_d i = (if i < 0 then CHR ''-'' # nat_digits (nat (- i)) else nat_digits (nat i))"

subsection \<open>GetSwapPairsContractAddresses\<close>

text \<open>
  \<open>SubContractResponse\<close> is declared in another file of the package. The client uses its
  field \<open>SubContracts\<close>, a slice; the element type is left open.
\<close>

record 'sc SubContractResponse =
  SubContracts :: "'sc list"

definition zero_SubContractResponse :: "'sc SubContractResponse" where
  "zero_SubContractResponse = \<lparr>SubContracts = []\<rparr>"

text \<open>The \<open>for _, contract := range contractResponsePage2.SubContracts\<close> loop.\<close>

fun append_page2 :: "'sc list \<Rightarrow> 'sc SubContractResponse \<Rightarrow> 'sc SubContractResponse" where
  "append_page2 [] page1 = page1"
| "append_page2 (contract # rest) page1 =
     append_page2 rest (page1\<lparr>SubContracts := SubContracts page1 @ [contract]\<rparr>)"

definition sub_contracts_url :: "int \<Rightarrow> string \<Rightarrow> string" where
  "sub_contracts_url swapContractsLimit page =
     BackendURL @ ''/contracts/'' @ AYINPairContractAddress @ ''/sub-contracts?limit=''
       @ Sprint_d swapContractsLimit @ ''&page='' @ page"

definition GetSwapPairsContractAddresses ::
  "AlephiumClient \<Rightarrow> http_env \<Rightarrow>
   (string \<Rightarrow> 'sc SubContractResponse \<Rightarrow> 'sc SubContractResponse \<times> go_error option) \<Rightarrow>
   int \<Rightarrow> effect list \<Rightarrow> ('sc SubContractResponse \<times> go_error option) \<times> effect list" where
  "GetSwapPairsContractAddresses c env unmarshal swapContractsLimit tr =
     (let rq1 = NewRequest ''GET'' (sub_contracts_url swapContractsLimit ''1'') [] in
      case callAPI c env unmarshal rq1 zero_SubContractResponse tr of
        (Some err, contractResponsePage1, tr1) \<Rightarrow> ((contractResponsePage1, Some err), tr1)
      | (None, contractResponsePage1, tr1) \<Rightarrow>
          (let rq2 = NewRequest ''GET'' (sub_contracts_url swapContractsLimit ''2'') [] in
           case callAPI c env unmarshal rq2 zero_SubContractResponse tr1 of
             (Some err, contractResponsePage2, tr2) \<Rightarrow>
               ((contractResponsePage1, Some err), tr2)
           | (None, contractResponsePage2, tr2) \<Rightarrow>
               ((append_page2 (SubContracts contractResponsePage2) contractResponsePage1,
                 None), tr2)))"

subsection \<open>Events and FilterEvents\<close>

text \<open>
  \<open>ContractEvent\<close> is declared in another file of the package; the client reads only its
  \<open>EventIndex\<close> (a Go \<open>int\<close>, compared for equality only), so the remaining fields are
  kept abstract in \<open>EventRest\<close>.
\<close>

record 'f ContractEvent =
  EventIndex :: int
  EventRest :: 'f

text \<open>
  The body of the \<open>for _, event := range allEvents\<close> loop of \<open>FilterEvents\<close>: \<open>events\<close> is
  the slice built so far, and \<open>append\<close> adds at its end.
\<close>

fun FilterEvents_loop ::
  "'f ContractEvent list \<Rightarrow> int \<Rightarrow> 'f ContractEvent list \<Rightarrow> 'f ContractEvent list" where
  "FilterEvents_loop [] flt events = events"
| "FilterEvents_loop (event # rest) flt events =
     (if EventIndex event = flt
      then FilterEvents_loop rest flt (events @ [event])
      else FilterEvents_loop rest flt events)"

definition FilterEvents :: "'f ContractEvent list \<Rightarrow> int \<Rightarrow> 'f ContractEvent list" where
  "FilterEvents allEvents flt = FilterEvents_loop allEvents flt []"

subsection \<open>Contract calls: the codec and the response types\<close>

text \<open>
  \<open>groupOfAddress\<close>, \<open>AddressFromTokenId\<close> and \<open>DecodeHex\<close> live in another file of the
  package. The client only calls them and passes their errors on, so they are taken as
  given functions.
\<close>

record codec =
  groupOfAddress :: "string \<Rightarrow> go_error + int"
  AddressFromTokenId :: "string \<Rightarrow> go_error + string"
  DecodeHex :: "string \<Rightarrow> go_error + string"

text \<open>
  The request and response types are declared in another file of the package. Their
  fields are the ones client.go reads and writes: a call result has a type tag, an
  optional error string (\<open>*string\<close>, \<open>nil\<close> is \<open>None\<close>) and a slice of returned values,
  each with a \<open>Value\<close> string; \<open>OutputField\<close> embeds one returned value.
\<close>

record CallContractRequest =
  Group :: int
  req_Address :: string
  MethodIndex :: int

record Val =
  ValType :: string
  Value :: string

record CallContractResult =
  Type :: string
  Error :: "string option"
  Returns :: "Val list"

record MulticallContractResponse =
  Results :: "CallContractResult list"

record OutputField =
  ResponseResult :: string
  EmbeddedField :: Val

record OutputResult =
  out_Address :: string
  out_Results :: "OutputField list"

definition zero_CallContractResult :: CallContractResult where
  "zero_CallContractResult = \<lparr>Type = [], Error = None, Returns = []\<rparr>"

definition zero_MulticallContractResponse :: MulticallContractResponse where
  "zero_MulticallContractResponse = \<lparr>Results = []\<rparr>"

text \<open>
  \<open>dia.Asset\<close> is declared in package dia; these are the fields client.go sets.
  \<open>Decimals\<close> is a \<open>uint8\<close>.
\<close>

record Asset =
  Symbol :: string
  Name :: string
  Address :: string
  Decimals :: "8 word"
  Blockchain :: string

definition zero_Asset :: Asset where
  "zero_Asset = \<lparr>Symbol = [], Name = [], Address = [], Decimals = 0, Blockchain = []\<rparr>"

text \<open>
  \<open>ALPHNativeToken\<close> is an exported package variable (\<open>var\<close>), not a constant: its
  value is part of the state of the program. \<open>GetTokenInfoForContractDecoded\<close> reads
  its \<open>Address\<close> and returns a pointer to it, so a caller can write to it through a
  result. \<open>package_vars\<close> is that state and \<open>initial_package_vars\<close> its value when
  the program starts. A \<open>*dia.Asset\<close> is either the address of the package variable
  or the address of an asset that the call has just allocated; nothing else refers to
  the latter, so it is given by its value. \<open>deref\<close> reads through a pointer,
  \<open>store_through\<close> is an assignment \<open>*p = f(*p)\<close> made by a caller.
\<close>

record package_vars =
  ALPHNativeToken :: Asset

definition initial_package_vars :: package_vars where
  "initial_package_vars =
     \<lparr>ALPHNativeToken =
        \<lparr>Symbol = ''ALPH'', Name = ''Alephium'',
         Address = ''tgx7VNFoP9DJiFMFgXXtafQZkUvyEdDHT9ryamHJYrjq'',
         Decimals = 18, Blockchain = []\<rparr>\<rparr>"

datatype asset_ptr = Ptr_ALPHNativeToken | Ptr_new Asset

definition deref :: "package_vars \<Rightarrow> asset_ptr \<Rightarrow> Asset" where
  "deref pv p = (case p of Ptr_ALPHNativeToken \<Rightarrow> ALPHNativeToken pv | Ptr_new a \<Rightarrow> a)"

definition store_through :: "asset_ptr \<Rightarrow> (Asset \<Rightarrow> Asset) \<Rightarrow> package_vars \<Rightarrow> package_vars" where
  "store_through p f pv =
     (case p of
        Ptr_ALPHNativeToken \<Rightarrow> pv\<lparr>ALPHNativeToken := f (ALPHNativeToken pv)\<rparr>
      | Ptr_new a \<Rightarrow> pv)"

text \<open>Indexing a slice: \<open>None\<close> stands for Go's index-out-of-range panic.\<close>

definition index :: "'a list \<Rightarrow> nat \<Rightarrow> 'a option" where
  "index xs i = (if i < length xs then Some (xs ! i) else None)"

definition index_panic :: string where
  "index_panic = ''runtime error: index out of range''"

subsection \<open>GetTokenPairAddresses\<close>

text \<open>
  \<open>marshal\<close> is \<open>json.Marshal\<close> on the request; its error branch ends the process in
  \<open>logger.Fatalf\<close>. A result \<open>([]string, error)\<close> is a pair, \<open>nil\<close> being the empty list.
\<close>

definition GetTokenPairAddresses ::
  "AlephiumClient \<Rightarrow> http_env \<Rightarrow> codec \<Rightarrow> (CallContractRequest \<Rightarrow> go_error + string) \<Rightarrow>
   (string \<Rightarrow> CallContractResult \<Rightarrow> CallContractResult \<times> go_error option) \<Rightarrow>
   string \<Rightarrow> effect list \<Rightarrow> (string list \<times> go_error option) outcome \<times> effect list" where
  "GetTokenPairAddresses c env cd marshal unmarshal contractAddress tr =
     (case groupOfAddress cd contractAddress of
        Inl err \<Rightarrow> (Return ([], Some err), tr)
      | Inr grp \<Rightarrow>
          (let inputData = \<lparr>Group = grp, req_Address = contractAddress,
                            MethodIndex = TokenPairMethod\<rparr> in
           case marshal inputData of
             Inl err \<Rightarrow> (Fatal ''failed to marshal input data'', tr)
           | Inr jsonData \<Rightarrow>
               (let rq = NewRequest ''POST'' (NodeURL @ ''/contracts/call-contract'') jsonData in
                case callAPI c env unmarshal rq zero_CallContractResult tr of
                  (Some err, response, tr1) \<Rightarrow>
                    (Return ([], Some err), tr1 @ [LogError ''failed to callApi'' err])
                | (None, response, tr1) \<Rightarrow>
                    (case Error response of
                       Some msg \<Rightarrow>
                         (let err = ErrorsNew msg in
                          (Return ([], Some err), tr1 @ [LogError ''failed to get token pair'' err]))
                     | None \<Rightarrow>
                         (case index (Returns response) 0 of
                            None \<Rightarrow> (Panic index_panic, tr1)
                          | Some r0 \<Rightarrow>
                              (case AddressFromTokenId cd (Value r0) of
                                 Inl err \<Rightarrow>
                                   (Return ([], Some err),
                                    tr1 @ [LogError ''failed to calculate address1'' err])
                               | Inr address1 \<Rightarrow>
                                   (case index (Returns response) 1 of
                                      None \<Rightarrow> (Panic index_panic, tr1)
                                    | Some r1 \<Rightarrow>
                                        (case AddressFromTokenId cd (Value r1) of
                                           Inl err \<Rightarrow>
                                             (Return ([], Some err),
                                              tr1 @ [LogError ''failed to calculate address2'' err])
                                         | Inr address2 \<Rightarrow>
                                             (Return ([address1, address2], None), tr1)))))))))"

subsection \<open>strconv.ParseUint\<close>

text \<open>
  The standard library's \<open>strconv.ParseUint(s, base, bitSize)\<close>, after its source, for a
  base from 2 to 36 (the client calls it with base 10 and bit size 32; the prefix and
  underscore rules of base 0 are not modelled). The accumulator is a \<open>uint64\<close>, written
  as a natural number with the wrap-around spelled out. The result is Go's pair: the
  value (0 after a syntax error, the largest value of the bit size after a range error)
  and the error.
\<close>

definition maxUint64 :: nat where
  "maxUint64 = 2 ^ 64 - 1"

definition lower :: "nat \<Rightarrow> nat" where
  "lower c = c OR 32"

definition digit_of_byte :: "char \<Rightarrow> nat option" where
  "digit_of_byte c =
     (let b = (of_char c :: nat) in
      if 48 \<le> b \<and> b \<le> 57 then Some (b - 48)
      else if 97 \<le> lower b \<and> lower b \<le> 122 then Some (lower b - 97 + 10)
      else None)"

fun ParseUint_loop :: "nat \<Rightarrow> nat \<Rightarrow> nat \<Rightarrow> nat \<Rightarrow> string \<Rightarrow> nat \<times> num_err option" where
  "ParseUint_loop base cutoff maxVal n [] = (n, None)"
| "ParseUint_loop base cutoff maxVal n (c # cs) =
     (case digit_of_byte c of
        None \<Rightarrow> (0, Some ErrSyntax)
      | Some d \<Rightarrow>
          if d \<ge> base then (0, Some ErrSyntax)
          else if n \<ge> cutoff then (maxVal, Some ErrRange)
          else (let n' = (n * base) mod 2 ^ 64; n1 = (n' + d) mod 2 ^ 64 in
                if n1 < n' \<or> n1 > maxVal then (maxVal, Some ErrRange)
                else ParseUint_loop base cutoff maxVal n1 cs))"

definition ParseUint :: "string \<Rightarrow> nat \<Rightarrow> nat \<Rightarrow> nat \<times> go_error option" where
  "ParseUint s base bitSize =
     (if s = [] then (0, Some (NumError ''ParseUint'' s ErrSyntax))
      else if base < 2 \<or> 36 < base then (0, Some (Foreign ''invalid base''))
      else if 64 < bitSize then (0, Some (Foreign ''invalid bit size''))
      else (let bits = (if bitSize = 0 then 64 else bitSize) in
            case ParseUint_loop base (maxUint64 div base + 1) (2 ^ bits - 1) 0 s of
              (v, None) \<Rightarrow> (v, None)
            | (v, Some e) \<Rightarrow> (v, Some (NumError ''ParseUint'' s e))))"

subsection \<open>decodeMulticallRequestToAssets\<close>

text \<open>
  \<open>resp.Results[i]\<close> is an unchecked index; \<open>uint8(decimals)\<close> keeps the low eight bits
  of the parsed number.
\<close>

definition decodeMulticallRequestToAssets ::
  "codec \<Rightarrow> string \<Rightarrow> string \<Rightarrow> OutputResult \<Rightarrow> effect list \<Rightarrow>
   (Asset \<times> go_error option) outcome \<times> effect list" where
  "decodeMulticallRequestToAssets cd contractAddress blockchain resp tr =
     (let asset = zero_Asset in
      case index (out_Results resp) SymbolMethod of
        None \<Rightarrow> (Panic index_panic, tr)
      | Some f0 \<Rightarrow>
          (case DecodeHex cd (Value (EmbeddedField f0)) of
             Inl err \<Rightarrow> (Return (asset, Some err), tr @ [LogError ''failed to decode symbol'' err])
           | Inr symbol \<Rightarrow>
               (let asset = asset\<lparr>Symbol := symbol\<rparr> in
                case index (out_Results resp) NameMethod of
                  None \<Rightarrow> (Panic index_panic, tr)
                | Some f1 \<Rightarrow>
                    (case DecodeHex cd (Value (EmbeddedField f1)) of
                       Inl err \<Rightarrow>
                         (Return (asset, Some err), tr @ [LogError ''failed to decode name'' err])
                     | Inr name \<Rightarrow>
                         (let asset = asset\<lparr>Name := name\<rparr> in
                          case index (out_Results resp) DecimalsMethod of
                            None \<Rightarrow> (Panic index_panic, tr)
                          | Some f2 \<Rightarrow>
                              (case ParseUint (Value (EmbeddedField f2)) 10 32 of
                                 (decimals, Some err) \<Rightarrow>
                                   (Return (asset, Some err),
                                    tr @ [LogError ''failed to decode decimals'' err])
                               | (decimals, None) \<Rightarrow>
                                   (Return (asset\<lparr>Decimals := of_nat decimals,
                                                  Address := contractAddress,
                                                  Blockchain := blockchain\<rparr>, None), tr)))))))"

subsection \<open>GetTokenInfoForContractDecoded\<close>

text \<open>The loop \<open>for i := 0; i < 3; i++\<close> that builds the three calls.\<close>

function inputData_loop ::
  "codec \<Rightarrow> string \<Rightarrow> nat \<Rightarrow> CallContractRequest list \<Rightarrow> go_error + CallContractRequest list" where
  "inputData_loop cd contractAddress i inputData =
     (if i < 3
      then (case groupOfAddress cd contractAddress of
              Inl err \<Rightarrow> Inl err
            | Inr grp \<Rightarrow>
                inputData_loop cd contractAddress (i + 1)
                  (inputData @ [\<lparr>Group = grp, req_Address = contractAddress,
                                 MethodIndex = int i\<rparr>]))
      else Inr inputData)"
  by pat_completeness auto
termination
  by (relation "measure (\<lambda>(cd, a, i, d). 3 - i)") auto

declare inputData_loop.simps [simp del]

text \<open>
  The loop \<open>for _, row := range response.Results\<close>: the first row with an error ends the
  call with that error; \<open>row.Returns[0]\<close> is an unchecked index.
\<close>

fun results_loop ::
  "CallContractResult list \<Rightarrow> OutputResult \<Rightarrow> (go_error + OutputResult) outcome" where
  "results_loop [] output = Return (Inr output)"
| "results_loop (row # rest) output =
     (case Error row of
        Some msg \<Rightarrow> Return (Inl (ErrorsNew msg))
      | None \<Rightarrow>
          (case index (Returns row) 0 of
             None \<Rightarrow> Panic index_panic
           | Some r0 \<Rightarrow>
               results_loop rest
                 (output\<lparr>out_Results := out_Results output
                            @ [\<lparr>ResponseResult = Type row, EmbeddedField = r0\<rparr>]\<rparr>)))"

text \<open>
  The function reads the package variable and does not write it, so it takes the
  package state and returns none. The result \<open>(*dia.Asset, error)\<close> is a pair of
  options: \<open>nil, err\<close> is \<open>(None, Some err)\<close>; \<open>return &ALPHNativeToken, nil\<close> gives the
  address of the package variable; the last line \<open>return &asset, err\<close> gives the
  address of the local asset together with whatever error the decoding returned.
\<close>

definition GetTokenInfoForContractDecoded ::
  "package_vars \<Rightarrow> AlephiumClient \<Rightarrow> http_env \<Rightarrow> codec \<Rightarrow>
   (CallContractRequest list \<Rightarrow> go_error + string) \<Rightarrow>
   (string \<Rightarrow> MulticallContractResponse \<Rightarrow> MulticallContractResponse \<times> go_error option) \<Rightarrow>
   string \<Rightarrow> string \<Rightarrow> effect list \<Rightarrow>
   (asset_ptr option \<times> go_error option) outcome \<times> effect list" where
  "GetTokenInfoForContractDecoded pv c env cd marshal unmarshal contractAddress blockchain tr =
     (if contractAddress = Address (ALPHNativeToken pv)
      then (Return (Some Ptr_ALPHNativeToken, None), tr)
      else
        case inputData_loop cd contractAddress 0 [] of
          Inl err \<Rightarrow> (Return (None, Some err), tr)
        | Inr inputData \<Rightarrow>
            (case marshal inputData of
               Inl err \<Rightarrow> (Fatal ''failed to marshal input data'', tr)
             | Inr jsonData \<Rightarrow>
                 (let rq = NewRequest ''POST'' (NodeURL @ ''/contracts/multicall-contract'')
                             jsonData in
                  case callAPI c env unmarshal rq zero_MulticallContractResponse tr of
                    (Some err, response, tr1) \<Rightarrow>
                      (Return (None, Some err), tr1 @ [LogError ''failed to callApi'' err])
                  | (None, response, tr1) \<Rightarrow>
                      (case results_loop (Results response)
                              \<lparr>out_Address = contractAddress, out_Results = []\<rparr> of
                         Panic p \<Rightarrow> (Panic p, tr1)
                       | Fatal p \<Rightarrow> (Fatal p, tr1)
                       | Return (Inl err) \<Rightarrow>
                           (Return (None, Some err),
                            tr1 @ [LogError ''failed to get token info'' err])
                       | Return (Inr output) \<Rightarrow>
                           (case decodeMulticallRequestToAssets cd contractAddress blockchain
                                   output tr1 of
                              (Panic p, tr2) \<Rightarrow> (Panic p, tr2)
                            | (Fatal p, tr2) \<Rightarrow> (Fatal p, tr2)
                            | (Return (asset, err), tr2) \<Rightarrow>
                                (Return (Some (Ptr_new asset), err), tr2))))))"

subsection \<open>Reading the trace\<close>

text \<open>The durations slept and the HTTP requests sent, in the order of the trace.\<close>

fun sleeps :: "effect list \<Rightarrow> int list" where
  "sleeps [] = []"
| "sleeps (Sleep d # tr) = d # sleeps tr"
| "sleeps (e # tr) = sleeps tr"

fun requests :: "effect list \<Rightarrow> request list" where
  "requests [] = []"
| "requests (HTTPDo rq # tr) = rq # requests tr"
| "requests (e # tr) = requests tr"

subsection \<open>Example environments\<close>

text \<open>
  Concrete collaborators on which the theorems below are instantiated. The server of
  \<open>fixed_env\<close> answers every request with one response; \<open>broken_dump_env\<close> does the
  same and its \<open>DumpResponse\<close> always fails; the server of \<open>second_env\<close>
  answers the first request of a trace with one response and every later request with
  another. \<open>letters_decoder\<close> stands for \<open>json.Unmarshal\<close> on a body that lists
  one-letter sub-contracts; \<open>const_decoder\<close> decodes every body to a given value.
  \<open>hex_codec\<close> accepts lower-case hexadecimal strings and returns them unchanged, and puts
  every address in group 0.
\<close>

definition example_client :: AlephiumClient where
  "example_client = \<lparr>Debug = False, sleepBetweenCalls = 300\<rparr>"

definition debug_client :: AlephiumClient where
  "debug_client = \<lparr>Debug = True, sleepBetweenCalls = 300\<rparr>"

definition ok_response :: "string \<Rightarrow> response" where
  "ok_response body = \<lparr>StatusCode = 200, Body = body, CloseResult = None\<rparr>"

definition status_response :: "int \<Rightarrow> string \<Rightarrow> response" where
  "status_response code body = \<lparr>StatusCode = code, Body = body, CloseResult = None\<rparr>"

definition fixed_env :: "response \<Rightarrow> http_env" where
  "fixed_env resp =
     \<lparr>DumpRequestOut = (\<lambda>rq. Inr []), Do = (\<lambda>tr rq. Inr resp), DumpResponse = (\<lambda>r. Inr [])\<rparr>"

definition broken_dump_env :: "response \<Rightarrow> http_env" where
  "broken_dump_env resp =
     \<lparr>DumpRequestOut = (\<lambda>rq. Inr ''request''), Do = (\<lambda>tr rq. Inr resp),
      DumpResponse = (\<lambda>r. Inl (Foreign ''unexpected EOF''))\<rparr>"

definition second_env :: "response \<Rightarrow> response \<Rightarrow> http_env" where
  "second_env resp1 resp2 =
     \<lparr>DumpRequestOut = (\<lambda>rq. Inr []),
      Do = (\<lambda>tr rq. if requests tr = [] then Inr resp1 else Inr resp2),
      DumpResponse = (\<lambda>r. Inr [])\<rparr>"

definition letters_decoder ::
  "string \<Rightarrow> string SubContractResponse \<Rightarrow> string SubContractResponse \<times> go_error option" where
  "letters_decoder data target = (\<lparr>SubContracts = map (\<lambda>ch. [ch]) data\<rparr>, None)"

definition const_decoder :: "'t \<Rightarrow> string \<Rightarrow> 't \<Rightarrow> 't \<times> go_error option" where
  "const_decoder v data target = (v, None)"

definition is_hex :: "string \<Rightarrow> bool" where
  "is_hex s = list_all (\<lambda>ch. ch \<in> set ''0123456789abcdef'') s"

definition hex_codec :: codec where
  "hex_codec =
     \<lparr>groupOfAddress = (\<lambda>a. Inr 0),
      AddressFromTokenId = (\<lambda>s. if is_hex s then Inr s else Inl (Foreign ''invalid token id'')),
      DecodeHex = (\<lambda>s. if is_hex s then Inr s else Inl (Foreign ''invalid hex string''))\<rparr>"

text \<open>
  \<open>example_marshal\<close> stands for \<open>json.Marshal\<close>; \<open>succeeded v\<close> and \<open>failed msg\<close> are the two
  kinds of call result the node sends.
\<close>

definition example_marshal :: "'a \<Rightarrow> go_error + string" where
  "example_marshal x = Inr ''{}''"

definition succeeded :: "string list \<Rightarrow> CallContractResult" where
  "succeeded vs =
     \<lparr>Type = ''CallContractSucceeded'', Error = None,
      Returns = map (\<lambda>v. \<lparr>ValType = ''ByteVec'', Value = v\<rparr>) vs\<rparr>"

definition failed :: "string \<Rightarrow> CallContractResult" where
  "failed msg = \<lparr>Type = ''CallContractFailed'', Error = Some msg, Returns = []\<rparr>"

subsection \<open>The value of a decimal digit string\<close>

text \<open>
  The reference for "unsigned base-10 parsing": \<open>decimal_value 0 s\<close> is the number a
  string of decimal digits denotes, with no bound. \<open>ParseUint\<close> is compared with it
  below.
\<close>

definition is_digit :: "char \<Rightarrow> bool" where
  "is_digit c = (48 \<le> (of_char c :: nat) \<and> (of_char c :: nat) \<le> 57)"

fun decimal_value :: "nat \<Rightarrow> string \<Rightarrow> nat" where
  "decimal_value n [] = n"
| "decimal_value n (c # cs) = decimal_value (10 * n + (of_char c - 48)) cs"

section \<open>Properties\<close>

subsection \<open>The trace of callAPI\<close>

lemma sleeps_append: "sleeps (a @ b) = sleeps a @ sleeps b"
  by (induction a rule: sleeps.induct) simp_all

lemma requests_append: "requests (a @ b) = requests a @ requests b"
  by (induction a rule: requests.induct) simp_all

lemma debug_request_sleeps:
  "debug_request c env rq tr = Inr tr1 \<Longrightarrow> sleeps tr1 = sleeps tr"
  by (auto simp: debug_request_def sleeps_append split: if_splits sum.splits)

lemma debug_response_sleeps:
  "debug_response c env resp tr = Inr tr2 \<Longrightarrow> sleeps tr2 = sleeps tr"
  by (auto simp: debug_response_def sleeps_append split: if_splits sum.splits)

lemma debug_request_requests:
  "debug_request c env rq tr = Inr tr1 \<Longrightarrow> requests tr1 = requests tr"
  by (auto simp: debug_request_def requests_append split: if_splits sum.splits)

lemma debug_response_requests:
  "debug_response c env resp tr = Inr tr2 \<Longrightarrow> requests tr2 = requests tr"
  by (auto simp: debug_response_def requests_append split: if_splits sum.splits)

text \<open>
  What \<open>callAPI\<close> returns once a response has been received (the request dump, the
  transport and the response dump did not fail).
\<close>

lemma callAPI_received:
  assumes "debug_request c env rq tr = Inr tr1"
    and "Do env tr1 rq = Inr resp"
    and "debug_response c env resp (tr1 @ [HTTPDo rq]) = Inr tr2"
  shows "callAPI c env um rq tgt tr =
     (if StatusCode resp \<noteq> 200
      then (Some (ErrorsNew ''not 200 http response code from api''), tgt,
            tr2 @ [ReadAll, LogAPIFailure (ErrorsNew ''not 200 http response code from api'')
                     (StatusCode resp) (Body resp) (URL rq)])
      else (case um (Body resp) tgt of
              (tgt', Some err) \<Rightarrow> (Some err, tgt', tr2 @ [ReadAll])
            | (tgt', None) \<Rightarrow>
                (CloseResult resp, tgt',
                 tr2 @ [ReadAll, Sleep (sleepBetweenCalls c), BodyClose])))"
  using assms by (simp add: callAPI_def waiting_def Let_def split: prod.splits option.splits)

lemma callAPI_success_requests:
  assumes "callAPI c env um rq tgt tr = (None, tgt', tr')"
  shows "requests tr' = requests tr @ [rq]"
  using assms
  by (auto simp: callAPI_def waiting_def Let_def requests_append
      dest!: debug_request_requests debug_response_requests
      split: sum.splits if_splits prod.splits option.splits)

lemma fixed_env_received:
  "debug_request example_client (fixed_env resp) rq tr = Inr tr
   \<and> Do (fixed_env resp) tr rq = Inr resp
   \<and> debug_response example_client (fixed_env resp) resp (tr @ [HTTPDo rq]) = Inr (tr @ [HTTPDo rq])"
  by (simp add: debug_request_def debug_response_def example_client_def fixed_env_def)

lemma broken_dump_env_received:
  "debug_request debug_client (broken_dump_env resp) rq tr = Inr (tr @ [LogPrintf ''request''])
   \<and> Do (broken_dump_env resp) (tr @ [LogPrintf ''request'']) rq = Inr resp
   \<and> debug_response debug_client (broken_dump_env resp) resp t = Inl (Foreign ''unexpected EOF'')"
  by (simp add: debug_request_def debug_response_def debug_client_def broken_dump_env_def)

lemma callAPI_no_request:
  assumes "debug_request c env rq tr = Inl err"
  shows "callAPI c env um rq tgt tr = (Some err, tgt, tr)"
  using assms by (simp add: callAPI_def)

lemma callAPI_no_response:
  assumes "debug_request c env rq tr = Inr tr1" and "Do env tr1 rq = Inl err"
  shows "callAPI c env um rq tgt tr = (Some err, tgt, tr1 @ [HTTPDo rq])"
  using assms by (simp add: callAPI_def)

lemma callAPI_no_dump:
  assumes "debug_request c env rq tr = Inr tr1" and "Do env tr1 rq = Inr resp"
    and "debug_response c env resp (tr1 @ [HTTPDo rq]) = Inl err"
  shows "callAPI c env um rq tgt tr = (Some err, tgt, tr1 @ [HTTPDo rq])"
  using assms by (simp add: callAPI_def)

text \<open>
  Claim C2, as the code has it. For every call, \<open>callAPI\<close> sleeps the configured
  duration exactly once, as its last effect before closing the body and returning,
  exactly when the request was sent (in debug mode, after the dump of the request
  succeeded), the transport returned a response, the dump of the response (debug mode
  only) did not fail, the status is 200 and the body decodes. In every other call,
  among them the API-error path (a status other than 200, the body read and logged), a
  failed dump of the response and a decoding error, it returns without sleeping.
\<close>

theorem callAPI_sleeps_after_decoded_200_only:
  "sleeps (snd (snd (callAPI c env um rq tgt tr))) =
     sleeps tr @
     (if (\<exists>tr1 resp tr2.
            debug_request c env rq tr = Inr tr1 \<and> Do env tr1 rq = Inr resp
            \<and> debug_response c env resp (tr1 @ [HTTPDo rq]) = Inr tr2
            \<and> StatusCode resp = 200 \<and> snd (um (Body resp) tgt) = None)
      then [sleepBetweenCalls c] else [])
   \<and> (debug_request c env rq tr = Inr tr1 \<and> Do env tr1 rq = Inr resp
        \<and> debug_response c env resp (tr1 @ [HTTPDo rq]) = Inr tr2
        \<and> StatusCode resp = 200 \<and> snd (um (Body resp) tgt) = None
      \<longrightarrow> snd (snd (callAPI c env um rq tgt tr))
            = tr2 @ [ReadAll, Sleep (sleepBetweenCalls c), BodyClose])"
proof
  show "sleeps (snd (snd (callAPI c env um rq tgt tr))) =
     sleeps tr @
     (if (\<exists>tr1 resp tr2.
            debug_request c env rq tr = Inr tr1 \<and> Do env tr1 rq = Inr resp
            \<and> debug_response c env resp (tr1 @ [HTTPDo rq]) = Inr tr2
            \<and> StatusCode resp = 200 \<and> snd (um (Body resp) tgt) = None)
      then [sleepBetweenCalls c] else [])"
  proof (cases "debug_request c env rq tr")
    case (Inl err)
    then show ?thesis by (simp add: callAPI_no_request)
  next
    case rq_sent: (Inr t1)
    note s1 = debug_request_sleeps [OF rq_sent]
    show ?thesis
    proof (cases "Do env t1 rq")
      case (Inl err)
      then show ?thesis
        using rq_sent s1 by (simp add: callAPI_no_response sleeps_append)
    next
      case received: (Inr r)
      show ?thesis
      proof (cases "debug_response c env r (t1 @ [HTTPDo rq])")
        case (Inl err)
        then show ?thesis
          using rq_sent received s1 by (simp add: callAPI_no_dump sleeps_append)
      next
        case dumped: (Inr t2)
        have s2: "sleeps t2 = sleeps tr"
          using debug_response_sleeps [OF dumped] s1 by (simp add: sleeps_append)
        show ?thesis
          unfolding callAPI_received [OF rq_sent received dumped]
          using rq_sent received dumped
          by (simp add: s2 sleeps_append split: prod.splits option.splits)
      qed
    qed
  qed
next
  show "debug_request c env rq tr = Inr tr1 \<and> Do env tr1 rq = Inr resp
        \<and> debug_response c env resp (tr1 @ [HTTPDo rq]) = Inr tr2
        \<and> StatusCode resp = 200 \<and> snd (um (Body resp) tgt) = None
      \<longrightarrow> snd (snd (callAPI c env um rq tgt tr))
            = tr2 @ [ReadAll, Sleep (sleepBetweenCalls c), BodyClose]"
  proof
    assume h: "debug_request c env rq tr = Inr tr1 \<and> Do env tr1 rq = Inr resp
        \<and> debug_response c env resp (tr1 @ [HTTPDo rq]) = Inr tr2
        \<and> StatusCode resp = 200 \<and> snd (um (Body resp) tgt) = None"
    then have r: "debug_request c env rq tr = Inr tr1" "Do env tr1 rq = Inr resp"
      "debug_response c env resp (tr1 @ [HTTPDo rq]) = Inr tr2" by simp_all
    from h show "snd (snd (callAPI c env um rq tgt tr))
            = tr2 @ [ReadAll, Sleep (sleepBetweenCalls c), BodyClose]"
      unfolding callAPI_received [OF r]
      by (auto split: prod.splits option.splits)
  qed
qed

theorem callAPI_sleeps_after_decoded_200_only_witness:
  "snd (snd (callAPI example_client (fixed_env (ok_response ''AB'')) letters_decoder
        (NewRequest ''GET'' ''u'' []) zero_SubContractResponse []))
     = [HTTPDo (NewRequest ''GET'' ''u'' []), ReadAll, Sleep 300, BodyClose]
   \<and> sleeps (snd (snd (callAPI example_client (fixed_env (ok_response ''AB'')) letters_decoder
        (NewRequest ''GET'' ''u'' []) zero_SubContractResponse []))) = [300]
   \<and> sleeps (snd (snd (callAPI debug_client (broken_dump_env (ok_response ''AB''))
        letters_decoder (NewRequest ''GET'' ''u'' []) zero_SubContractResponse []))) = []"
proof -
  let ?rq = "NewRequest ''GET'' ''u'' []"
  let ?env = "fixed_env (ok_response ''AB'')"
  note h = fixed_env_received [of "ok_response ''AB''" ?rq "[]"]
  have ok: "StatusCode (ok_response ''AB'') = 200
            \<and> snd (letters_decoder (Body (ok_response ''AB'')) zero_SubContractResponse) = None"
    by (simp add: ok_response_def letters_decoder_def)
  note t = callAPI_sleeps_after_decoded_200_only [where c = example_client and env = ?env
      and um = letters_decoder and rq = ?rq and tgt = zero_SubContractResponse and tr = "[]"
      and ?tr1.0 = "[]" and resp = "ok_response ''AB''" and ?tr2.0 = "[] @ [HTTPDo ?rq]"]
  have a: "snd (snd (callAPI example_client ?env letters_decoder ?rq
             zero_SubContractResponse [])) = [HTTPDo ?rq, ReadAll, Sleep 300, BodyClose]"
    using t [THEN conjunct2] h ok by (simp add: example_client_def)
  have b: "sleeps (snd (snd (callAPI example_client ?env letters_decoder ?rq
             zero_SubContractResponse []))) = [300]"
    by (simp add: a)
  note g = broken_dump_env_received [of "ok_response ''AB''" ?rq "[]"]
  have "\<not> (\<exists>tr1 resp tr2.
            debug_request debug_client (broken_dump_env (ok_response ''AB'')) ?rq [] = Inr tr1
            \<and> Do (broken_dump_env (ok_response ''AB'')) tr1 ?rq = Inr resp
            \<and> debug_response debug_client (broken_dump_env (ok_response ''AB'')) resp
                 (tr1 @ [HTTPDo ?rq]) = Inr tr2
            \<and> StatusCode resp = 200
            \<and> snd (letters_decoder (Body resp) zero_SubContractResponse) = None)"
    using g by simp
  then have c: "sleeps (snd (snd (callAPI debug_client (broken_dump_env (ok_response ''AB''))
             letters_decoder ?rq zero_SubContractResponse []))) = []"
    using callAPI_sleeps_after_decoded_200_only [where c = debug_client
        and env = "broken_dump_env (ok_response ''AB'')" and um = letters_decoder and rq = ?rq
        and tgt = zero_SubContractResponse and tr = "[]", THEN conjunct1]
    by simp
  from a b c show ?thesis by simp
qed

text \<open>
  Claim C2 as stated fails: a call answered with status 500 completes on the API-error
  path, the body has been read, and the trace holds no sleep.
\<close>

theorem callAPI_api_error_no_sleep_counterexample:
  "fst (callAPI example_client (fixed_env (status_response 500 ''busy'')) letters_decoder
          (NewRequest ''GET'' ''u'' []) zero_SubContractResponse [])
     = Some (ErrorsNew ''not 200 http response code from api'')
   \<and> ReadAll \<in> set (snd (snd (callAPI example_client (fixed_env (status_response 500 ''busy''))
          letters_decoder (NewRequest ''GET'' ''u'' []) zero_SubContractResponse [])))
   \<and> sleeps (snd (snd (callAPI example_client (fixed_env (status_response 500 ''busy''))
          letters_decoder (NewRequest ''GET'' ''u'' []) zero_SubContractResponse []))) = []"
  by (simp add: callAPI_def debug_request_def debug_response_def example_client_def
      fixed_env_def status_response_def Let_def)

text \<open>
  Claim C3, as the code has it. Take any call in which a response has been received:
  the request was sent (in debug mode, after the dump of the request succeeded) and the
  transport returned a response. If the dump of the response fails (debug mode only),
  \<open>callAPI\<close> returns the error of the dump, whatever the status, and decodes nothing.
  Otherwise it fails with the fixed error "not 200 http response code from api" for
  every status other than 200, leaving the result variable as it was; the status code
  and the body go to the log entry, not into the error. For status 200 it decodes the
  body into the result variable and returns the decoder's error, or else what closing
  the body returns.
\<close>

theorem callAPI_status_200_or_fixed_error:
  assumes "debug_request c env rq tr = Inr tr1"
    and "Do env tr1 rq = Inr resp"
  shows "(debug_response c env resp (tr1 @ [HTTPDo rq]) = Inl err \<longrightarrow>
            callAPI c env um rq tgt tr = (Some err, tgt, tr1 @ [HTTPDo rq]))
       \<and> (debug_response c env resp (tr1 @ [HTTPDo rq]) = Inr tr2 \<and> StatusCode resp \<noteq> 200 \<longrightarrow>
            callAPI c env um rq tgt tr =
              (Some (ErrorsNew ''not 200 http response code from api''), tgt,
               tr2 @ [ReadAll, LogAPIFailure (ErrorsNew ''not 200 http response code from api'')
                        (StatusCode resp) (Body resp) (URL rq)]))
       \<and> (debug_response c env resp (tr1 @ [HTTPDo rq]) = Inr tr2 \<and> StatusCode resp = 200 \<longrightarrow>
            fst (snd (callAPI c env um rq tgt tr)) = fst (um (Body resp) tgt)
            \<and> fst (callAPI c env um rq tgt tr) =
                (case snd (um (Body resp) tgt) of
                   Some err \<Rightarrow> Some err
                 | None \<Rightarrow> CloseResult resp))"
proof (intro conjI impI)
  assume "debug_response c env resp (tr1 @ [HTTPDo rq]) = Inl err"
  then show "callAPI c env um rq tgt tr = (Some err, tgt, tr1 @ [HTTPDo rq])"
    by (rule callAPI_no_dump [OF assms])
next
  assume h: "debug_response c env resp (tr1 @ [HTTPDo rq]) = Inr tr2 \<and> StatusCode resp \<noteq> 200"
  then have d: "debug_response c env resp (tr1 @ [HTTPDo rq]) = Inr tr2" by simp
  from h show "callAPI c env um rq tgt tr =
              (Some (ErrorsNew ''not 200 http response code from api''), tgt,
               tr2 @ [ReadAll, LogAPIFailure (ErrorsNew ''not 200 http response code from api'')
                        (StatusCode resp) (Body resp) (URL rq)])"
    unfolding callAPI_received [OF assms d] by simp
next
  assume h: "debug_response c env resp (tr1 @ [HTTPDo rq]) = Inr tr2 \<and> StatusCode resp = 200"
  then have d: "debug_response c env resp (tr1 @ [HTTPDo rq]) = Inr tr2" by simp
  from h show "fst (snd (callAPI c env um rq tgt tr)) = fst (um (Body resp) tgt)"
    unfolding callAPI_received [OF assms d] by (simp split: prod.splits option.splits)
  from h show "fst (callAPI c env um rq tgt tr) =
                (case snd (um (Body resp) tgt) of
                   Some err \<Rightarrow> Some err
                 | None \<Rightarrow> CloseResult resp)"
    unfolding callAPI_received [OF assms d] by (simp split: prod.splits option.splits)
qed

theorem callAPI_status_200_or_fixed_error_witness:
  "fst (snd (callAPI example_client (fixed_env (ok_response ''AB'')) letters_decoder
        (NewRequest ''GET'' ''u'' []) zero_SubContractResponse []))
     = \<lparr>SubContracts = [''A'', ''B'']\<rparr>
   \<and> fst (callAPI example_client (fixed_env (ok_response ''AB'')) letters_decoder
        (NewRequest ''GET'' ''u'' []) zero_SubContractResponse []) = None
   \<and> callAPI example_client (fixed_env (status_response 404 ''gone'')) letters_decoder
        (NewRequest ''GET'' ''u'' []) zero_SubContractResponse []
     = (Some (ErrorsNew ''not 200 http response code from api''), zero_SubContractResponse,
        [HTTPDo (NewRequest ''GET'' ''u'' []), ReadAll,
         LogAPIFailure (ErrorsNew ''not 200 http response code from api'') 404 ''gone'' ''u''])
   \<and> callAPI debug_client (broken_dump_env (status_response 500 ''busy'')) letters_decoder
        (NewRequest ''GET'' ''u'' []) zero_SubContractResponse []
     = (Some (Foreign ''unexpected EOF''), zero_SubContractResponse,
        [LogPrintf ''request'', HTTPDo (NewRequest ''GET'' ''u'' [])])"
proof -
  let ?rq = "NewRequest ''GET'' ''u'' []"
  note ok = fixed_env_received [of "ok_response ''AB''" ?rq "[]"]
  note ko = fixed_env_received [of "status_response 404 ''gone''" ?rq "[]"]
  note bd = broken_dump_env_received [of "status_response 500 ''busy''" ?rq "[]"
      "[LogPrintf ''request''] @ [HTTPDo ?rq]"]
  note t1 = callAPI_status_200_or_fixed_error [OF ok [THEN conjunct1]
      ok [THEN conjunct2, THEN conjunct1], where um = letters_decoder
      and tgt = zero_SubContractResponse and ?tr2.0 = "[] @ [HTTPDo ?rq]",
      THEN conjunct2, THEN conjunct2]
  note t2 = callAPI_status_200_or_fixed_error [OF ko [THEN conjunct1]
      ko [THEN conjunct2, THEN conjunct1], where um = letters_decoder
      and tgt = zero_SubContractResponse and ?tr2.0 = "[] @ [HTTPDo ?rq]",
      THEN conjunct2, THEN conjunct1]
  have bd1: "debug_request debug_client (broken_dump_env (status_response 500 ''busy'')) ?rq []
               = Inr [LogPrintf ''request'']"
    and bd2: "Do (broken_dump_env (status_response 500 ''busy'')) [LogPrintf ''request''] ?rq
               = Inr (status_response 500 ''busy'')"
    using bd by simp_all
  note t3 = callAPI_status_200_or_fixed_error [OF bd1 bd2, where um = letters_decoder
      and tgt = zero_SubContractResponse and err = "Foreign ''unexpected EOF''",
      THEN conjunct1]
  have a: "fst (snd (callAPI example_client (fixed_env (ok_response ''AB'')) letters_decoder
        ?rq zero_SubContractResponse [])) = \<lparr>SubContracts = [''A'', ''B'']\<rparr>
     \<and> fst (callAPI example_client (fixed_env (ok_response ''AB'')) letters_decoder
        ?rq zero_SubContractResponse []) = None"
    using t1 ok by (simp add: ok_response_def letters_decoder_def)
  have b: "callAPI example_client (fixed_env (status_response 404 ''gone'')) letters_decoder
        ?rq zero_SubContractResponse []
     = (Some (ErrorsNew ''not 200 http response code from api''), zero_SubContractResponse,
        [HTTPDo ?rq, ReadAll,
         LogAPIFailure (ErrorsNew ''not 200 http response code from api'') 404 ''gone'' ''u''])"
    using t2 ko by (simp add: status_response_def NewRequest_def)
  have c: "callAPI debug_client (broken_dump_env (status_response 500 ''busy'')) letters_decoder
        ?rq zero_SubContractResponse []
     = (Some (Foreign ''unexpected EOF''), zero_SubContractResponse,
        [LogPrintf ''request'', HTTPDo ?rq])"
    using t3 bd by simp
  from a b c show ?thesis by simp
qed

text \<open>
  Claim C3 as stated fails: status 201 is a 2xx status, the body would decode, and
  \<open>callAPI\<close> still fails with the fixed error and decodes nothing.
\<close>

theorem callAPI_status_201_rejected_counterexample:
  "200 \<le> StatusCode (status_response 201 ''AB'') \<and> StatusCode (status_response 201 ''AB'') < 300
   \<and> snd (letters_decoder ''AB'' zero_SubContractResponse) = None
   \<and> callAPI example_client (fixed_env (status_response 201 ''AB'')) letters_decoder
        (NewRequest ''GET'' ''u'' []) zero_SubContractResponse []
     = (Some (ErrorsNew ''not 200 http response code from api''), zero_SubContractResponse,
        [HTTPDo (NewRequest ''GET'' ''u'' []), ReadAll,
         LogAPIFailure (ErrorsNew ''not 200 http response code from api'') 201 ''AB'' ''u''])"
  by (simp add: callAPI_def debug_request_def debug_response_def example_client_def
      fixed_env_def status_response_def letters_decoder_def NewRequest_def Let_def)

subsection \<open>Pool discovery\<close>

lemma append_page2_eq:
  "append_page2 xs p = p\<lparr>SubContracts := SubContracts p @ xs\<rparr>"
  by (induction xs arbitrary: p) simp_all

lemma second_env_first:
  "debug_request example_client (second_env r1 r2) rq [] = Inr []
   \<and> Do (second_env r1 r2) [] rq = Inr r1
   \<and> debug_response example_client (second_env r1 r2) r1 ([] @ [HTTPDo rq]) = Inr [HTTPDo rq]"
  by (simp add: debug_request_def debug_response_def example_client_def second_env_def)

lemma second_env_later:
  "requests tr \<noteq> [] \<Longrightarrow>
   debug_request example_client (second_env r1 r2) rq tr = Inr tr
   \<and> Do (second_env r1 r2) tr rq = Inr r2
   \<and> debug_response example_client (second_env r1 r2) r2 (tr @ [HTTPDo rq])
       = Inr (tr @ [HTTPDo rq])"
  by (simp add: debug_request_def debug_response_def example_client_def second_env_def)

lemma second_env_page1:
  "callAPI example_client (second_env (ok_response ''AB'') r2) letters_decoder rq
     zero_SubContractResponse []
   = (None, \<lparr>SubContracts = [''A'', ''B'']\<rparr>, [HTTPDo rq, ReadAll, Sleep 300, BodyClose])"
proof -
  note h = second_env_first [of "ok_response ''AB''" r2 rq]
  show ?thesis
    unfolding callAPI_received [OF h [THEN conjunct1] h [THEN conjunct2, THEN conjunct1]
        h [THEN conjunct2, THEN conjunct2]]
    by (simp add: ok_response_def letters_decoder_def example_client_def)
qed

lemma second_env_page2_ok:
  "callAPI example_client (second_env r1 (ok_response ''C'')) letters_decoder rq
     zero_SubContractResponse [HTTPDo rq1, ReadAll, Sleep 300, BodyClose]
   = (None, \<lparr>SubContracts = [''C'']\<rparr>,
      [HTTPDo rq1, ReadAll, Sleep 300, BodyClose, HTTPDo rq, ReadAll, Sleep 300, BodyClose])"
proof -
  have ne: "requests [HTTPDo rq1, ReadAll, Sleep 300, BodyClose] \<noteq> []" by simp
  note h = second_env_later [OF ne, of r1 "ok_response ''C''" rq]
  show ?thesis
    unfolding callAPI_received [OF h [THEN conjunct1] h [THEN conjunct2, THEN conjunct1]
        h [THEN conjunct2, THEN conjunct2]]
    by (simp add: ok_response_def letters_decoder_def example_client_def)
qed

lemma second_env_page2_fails:
  "callAPI example_client (second_env r1 (status_response 500 ''busy'')) letters_decoder rq
     zero_SubContractResponse [HTTPDo rq1, ReadAll, Sleep 300, BodyClose]
   = (Some (ErrorsNew ''not 200 http response code from api''), zero_SubContractResponse,
      [HTTPDo rq1, ReadAll, Sleep 300, BodyClose, HTTPDo rq, ReadAll,
       LogAPIFailure (ErrorsNew ''not 200 http response code from api'') 500 ''busy'' (URL rq)])"
proof -
  have ne: "requests [HTTPDo rq1, ReadAll, Sleep 300, BodyClose] \<noteq> []" by simp
  note h = second_env_later [OF ne, of r1 "status_response 500 ''busy''" rq]
  show ?thesis
    unfolding callAPI_received [OF h [THEN conjunct1] h [THEN conjunct2, THEN conjunct1]
        h [THEN conjunct2, THEN conjunct2]]
    by (simp add: status_response_def)
qed

text \<open>
  Claim C4, as the code has it. If the fetch of page 1 fails, or the fetch of page 2
  fails, \<open>GetSwapPairsContractAddresses\<close> returns the gateway's error at once (after a
  failure of page 1 no second request is made: the trace is the one of the first call),
  and page 2's sub-contracts are never appended. The value returned next to the error
  is the page-1 response variable as the gateway left it; when page 2 fails it holds the
  sub-contracts of page 1.
\<close>

theorem GetSwapPairsContractAddresses_failure:
  "(callAPI c env um (NewRequest ''GET'' (sub_contracts_url n ''1'') [])
        zero_SubContractResponse tr = (Some err, p1, tr1) \<longrightarrow>
      GetSwapPairsContractAddresses c env um n tr = ((p1, Some err), tr1))
   \<and> (callAPI c env um (NewRequest ''GET'' (sub_contracts_url n ''1'') [])
        zero_SubContractResponse tr = (None, p1, tr1)
      \<and> callAPI c env um (NewRequest ''GET'' (sub_contracts_url n ''2'') [])
        zero_SubContractResponse tr1 = (Some err, p2, tr2) \<longrightarrow>
      GetSwapPairsContractAddresses c env um n tr = ((p1, Some err), tr2))"
  by (simp add: GetSwapPairsContractAddresses_def Let_def)

theorem GetSwapPairsContractAddresses_failure_witness:
  "GetSwapPairsContractAddresses example_client (fixed_env (status_response 500 ''busy''))
       letters_decoder 100 []
     = ((zero_SubContractResponse, Some (ErrorsNew ''not 200 http response code from api'')),
        [HTTPDo (NewRequest ''GET'' (sub_contracts_url 100 ''1'') []), ReadAll,
         LogAPIFailure (ErrorsNew ''not 200 http response code from api'') 500 ''busy''
           (sub_contracts_url 100 ''1'')])
   \<and> fst (GetSwapPairsContractAddresses example_client
        (second_env (ok_response ''AB'') (status_response 500 ''busy'')) letters_decoder 100 [])
     = (\<lparr>SubContracts = [''A'', ''B'']\<rparr>, Some (ErrorsNew ''not 200 http response code from api''))"
proof -
  let ?rq1 = "NewRequest ''GET'' (sub_contracts_url 100 ''1'') []"
  let ?rq2 = "NewRequest ''GET'' (sub_contracts_url 100 ''2'') []"
  note h = fixed_env_received [of "status_response 500 ''busy''" ?rq1 "[]"]
  have a: "callAPI example_client (fixed_env (status_response 500 ''busy'')) letters_decoder ?rq1
             zero_SubContractResponse []
           = (Some (ErrorsNew ''not 200 http response code from api''), zero_SubContractResponse,
              [HTTPDo ?rq1, ReadAll,
               LogAPIFailure (ErrorsNew ''not 200 http response code from api'') 500 ''busy''
                 (sub_contracts_url 100 ''1'')])"
    unfolding callAPI_received [OF h [THEN conjunct1] h [THEN conjunct2, THEN conjunct1]
        h [THEN conjunct2, THEN conjunct2]]
    by (simp add: status_response_def NewRequest_def)
  have b: "GetSwapPairsContractAddresses example_client
             (second_env (ok_response ''AB'') (status_response 500 ''busy'')) letters_decoder 100 []
           = ((\<lparr>SubContracts = [''A'', ''B'']\<rparr>,
               Some (ErrorsNew ''not 200 http response code from api'')),
              [HTTPDo ?rq1, ReadAll, Sleep 300, BodyClose, HTTPDo ?rq2, ReadAll,
               LogAPIFailure (ErrorsNew ''not 200 http response code from api'') 500 ''busy''
                 (URL ?rq2)])"
    using GetSwapPairsContractAddresses_failure [THEN conjunct2, rule_format,
        OF conjI [OF second_env_page1 second_env_page2_fails]]
    by simp
  show ?thesis
    using GetSwapPairsContractAddresses_failure [THEN conjunct1, rule_format, OF a] b
    by simp
qed

text \<open>
  Claim C4 as stated fails: page 1 answers with sub-contracts A and B, page 2 answers
  with status 500, and the caller receives the error together with the list [A, B].
\<close>

theorem GetSwapPairsContractAddresses_page1_delivered_counterexample:
  "fst (GetSwapPairsContractAddresses example_client
        (second_env (ok_response ''AB'') (status_response 500 ''busy'')) letters_decoder 100 [])
     = (\<lparr>SubContracts = [''A'', ''B'']\<rparr>, Some (ErrorsNew ''not 200 http response code from api''))
   \<and> SubContracts (fst (fst (GetSwapPairsContractAddresses example_client
        (second_env (ok_response ''AB'') (status_response 500 ''busy'')) letters_decoder 100 [])))
     \<noteq> []"
  by (simp add: GetSwapPairsContractAddresses_def Let_def second_env_page1
      second_env_page2_fails)

text \<open>
  Claim C5. For every page size and every two successful page fetches,
  \<open>GetSwapPairsContractAddresses\<close> sends exactly two requests, \<open>GET\<close> on the sub-contracts
  of the root contract with \<open>limit\<close> the page size and \<open>page\<close> 1, then the same with
  \<open>page\<close> 2, and returns the sub-contracts of page 1 followed by those of page 2, each in
  its own order, with no error.
\<close>

theorem GetSwapPairsContractAddresses_concatenates:
  assumes "callAPI c env um (NewRequest ''GET'' (sub_contracts_url n ''1'') [])
             zero_SubContractResponse tr = (None, p1, tr1)"
    and "callAPI c env um (NewRequest ''GET'' (sub_contracts_url n ''2'') [])
             zero_SubContractResponse tr1 = (None, p2, tr2)"
  shows "GetSwapPairsContractAddresses c env um n tr
           = ((p1\<lparr>SubContracts := SubContracts p1 @ SubContracts p2\<rparr>, None), tr2)
         \<and> requests tr2 = requests tr
             @ [\<lparr>Method = ''GET'',
                 URL = ''https://backend.mainnet.alephium.org/contracts/''
                        @ ''vyrkJHG49TXss6pGAz2dVxq5o7mBXNNXAV18nAeqVT1R''
                        @ ''/sub-contracts?limit='' @ Sprint_d n @ ''&page=1'',
                 RequestBody = []\<rparr>,
                \<lparr>Method = ''GET'',
                 URL = ''https://backend.mainnet.alephium.org/contracts/''
                        @ ''vyrkJHG49TXss6pGAz2dVxq5o7mBXNNXAV18nAeqVT1R''
                        @ ''/sub-contracts?limit='' @ Sprint_d n @ ''&page=2'',
                 RequestBody = []\<rparr>]"
proof -
  have res: "GetSwapPairsContractAddresses c env um n tr
           = ((p1\<lparr>SubContracts := SubContracts p1 @ SubContracts p2\<rparr>, None), tr2)"
    using assms by (simp add: GetSwapPairsContractAddresses_def Let_def append_page2_eq)
  have "requests tr2 = requests tr
          @ [NewRequest ''GET'' (sub_contracts_url n ''1'') [],
             NewRequest ''GET'' (sub_contracts_url n ''2'') []]"
    using callAPI_success_requests [OF assms(1)] callAPI_success_requests [OF assms(2)]
    by simp
  then have "requests tr2 = requests tr
             @ [\<lparr>Method = ''GET'',
                 URL = ''https://backend.mainnet.alephium.org/contracts/''
                        @ ''vyrkJHG49TXss6pGAz2dVxq5o7mBXNNXAV18nAeqVT1R''
                        @ ''/sub-contracts?limit='' @ Sprint_d n @ ''&page=1'',
                 RequestBody = []\<rparr>,
                \<lparr>Method = ''GET'',
                 URL = ''https://backend.mainnet.alephium.org/contracts/''
                        @ ''vyrkJHG49TXss6pGAz2dVxq5o7mBXNNXAV18nAeqVT1R''
                        @ ''/sub-contracts?limit='' @ Sprint_d n @ ''&page=2'',
                 RequestBody = []\<rparr>]"
    by (simp add: NewRequest_def sub_contracts_url_def BackendURL_def
        AYINPairContractAddress_def)
  with res show ?thesis by blast
qed

theorem GetSwapPairsContractAddresses_concatenates_witness:
  "fst (GetSwapPairsContractAddresses example_client
        (second_env (ok_response ''AB'') (ok_response ''C'')) letters_decoder 100 [])
     = (\<lparr>SubContracts = [''A'', ''B'', ''C'']\<rparr>, None)"
  using GetSwapPairsContractAddresses_concatenates [OF second_env_page1 second_env_page2_ok]
  by simp

subsection \<open>Token pair of a pool\<close>

lemma fixed_env_const_decoder:
  "callAPI example_client (fixed_env (ok_response body)) (const_decoder v) rq tgt tr
   = (None, v, tr @ [HTTPDo rq, ReadAll, Sleep 300, BodyClose])"
proof -
  note h = fixed_env_received [of "ok_response body" rq tr]
  show ?thesis
    unfolding callAPI_received [OF h [THEN conjunct1] h [THEN conjunct2, THEN conjunct1]
        h [THEN conjunct2, THEN conjunct2]]
    by (simp add: ok_response_def const_decoder_def example_client_def)
qed

text \<open>
  Claim C7, as the code has it. After a successful call of method 7 whose result carries
  no error: if exactly two identifiers are returned, both index accesses are in bounds
  and the result is the pair of addresses \<open>AddressFromTokenId\<close> gives for the first and
  the second identifier, in that order (or the error of the first conversion that fails);
  if none is returned, the first index access panics; if exactly one is returned, the
  second index access panics, unless \<open>AddressFromTokenId\<close> rejects that one identifier,
  in which case its error is returned before the second access is made.
\<close>

theorem GetTokenPairAddresses_returns:
  assumes "groupOfAddress cd a = Inr g"
    and "marshal \<lparr>Group = g, req_Address = a, MethodIndex = 7\<rparr> = Inr js"
    and "callAPI c env um (NewRequest ''POST'' (NodeURL @ ''/contracts/call-contract'') js)
           zero_CallContractResult tr = (None, response, tr1)"
    and "Error response = None"
  shows "(Returns response = [r0, r1] \<longrightarrow>
            GetTokenPairAddresses c env cd marshal um a tr =
              (case AddressFromTokenId cd (Value r0) of
                 Inl err \<Rightarrow>
                   (Return ([], Some err), tr1 @ [LogError ''failed to calculate address1'' err])
               | Inr address1 \<Rightarrow>
                   (case AddressFromTokenId cd (Value r1) of
                      Inl err \<Rightarrow>
                        (Return ([], Some err),
                         tr1 @ [LogError ''failed to calculate address2'' err])
                    | Inr address2 \<Rightarrow> (Return ([address1, address2], None), tr1))))
       \<and> (Returns response = [] \<longrightarrow>
            GetTokenPairAddresses c env cd marshal um a tr = (Panic index_panic, tr1))
       \<and> (Returns response = [r0] \<longrightarrow>
            GetTokenPairAddresses c env cd marshal um a tr =
              (case AddressFromTokenId cd (Value r0) of
                 Inl err \<Rightarrow>
                   (Return ([], Some err), tr1 @ [LogError ''failed to calculate address1'' err])
               | Inr address1 \<Rightarrow> (Panic index_panic, tr1)))"
  using assms
  by (simp add: GetTokenPairAddresses_def TokenPairMethod_def index_def Let_def
      split: sum.splits)

theorem GetTokenPairAddresses_returns_witness:
  "fst (GetTokenPairAddresses example_client (fixed_env (ok_response ''{}'')) hex_codec
          example_marshal (const_decoder (succeeded [''0a'', ''0b''])) ''pool'' [])
     = Return ([''0a'', ''0b''], None)
   \<and> fst (GetTokenPairAddresses example_client (fixed_env (ok_response ''{}'')) hex_codec
          example_marshal (const_decoder (succeeded [])) ''pool'' [])
     = Panic index_panic
   \<and> fst (GetTokenPairAddresses example_client (fixed_env (ok_response ''{}'')) hex_codec
          example_marshal (const_decoder (succeeded [''0a''])) ''pool'' [])
     = Panic index_panic"
proof -
  have g: "groupOfAddress hex_codec ''pool'' = Inr 0"
    by (simp add: hex_codec_def)
  have m: "example_marshal \<lparr>Group = 0, req_Address = ''pool'', MethodIndex = 7\<rparr> = Inr ''{}''"
    by (simp add: example_marshal_def)
  have e: "Error (succeeded vs) = None" for vs
    by (simp add: succeeded_def)
  have a: "AddressFromTokenId hex_codec ''0a'' = Inr ''0a''"
    "AddressFromTokenId hex_codec ''0b'' = Inr ''0b''"
    by (simp_all add: hex_codec_def is_hex_def)
  have c: "callAPI example_client (fixed_env (ok_response ''{}'')) (const_decoder (succeeded vs))
             (NewRequest ''POST'' (NodeURL @ ''/contracts/call-contract'') ''{}'')
             zero_CallContractResult []
           = (None, succeeded vs,
              [] @ [HTTPDo (NewRequest ''POST'' (NodeURL @ ''/contracts/call-contract'') ''{}''),
                    ReadAll, Sleep 300, BodyClose])" for vs
    by (rule fixed_env_const_decoder)
  note inst = GetTokenPairAddresses_returns [where marshal = example_marshal
      and cd = hex_codec, OF g m c e]
  show ?thesis
    using inst [of "[''0a'', ''0b'']" "\<lparr>ValType = ''ByteVec'', Value = ''0a''\<rparr>"
           "\<lparr>ValType = ''ByteVec'', Value = ''0b''\<rparr>"]
      inst [of "[]"]
      inst [of "[''0a'']" "\<lparr>ValType = ''ByteVec'', Value = ''0a''\<rparr>"]
    by (simp add: succeeded_def a)
qed

text \<open>
  Claim C7 as stated fails in its second half: a success payload with one identifier
  that \<open>AddressFromTokenId\<close> rejects gives a reported error, not an index out of range.
\<close>

theorem GetTokenPairAddresses_one_bad_id_counterexample:
  "length (Returns (succeeded [''zz''])) < 2
   \<and> Error (succeeded [''zz'']) = None
   \<and> fst (GetTokenPairAddresses example_client (fixed_env (ok_response ''{}'')) hex_codec
          example_marshal (const_decoder (succeeded [''zz''])) ''pool'' [])
     = Return ([], Some (Foreign ''invalid token id''))"
  by (simp add: GetTokenPairAddresses_def fixed_env_const_decoder Let_def index_def
      hex_codec_def is_hex_def example_marshal_def succeeded_def)

subsection \<open>Token metadata\<close>

lemma inputData_loop_three:
  "inputData_loop cd a 0 [] =
     (case groupOfAddress cd a of
        Inl err \<Rightarrow> Inl err
      | Inr g \<Rightarrow>
          Inr [\<lparr>Group = g, req_Address = a, MethodIndex = 0\<rparr>,
               \<lparr>Group = g, req_Address = a, MethodIndex = 1\<rparr>,
               \<lparr>Group = g, req_Address = a, MethodIndex = 2\<rparr>])"
proof (cases "groupOfAddress cd a")
  case (Inl err)
  then show ?thesis by (subst inputData_loop.simps) simp
next
  case (Inr g)
  have h3: "inputData_loop cd a 3 xs = Inr xs" for xs
    by (subst inputData_loop.simps) simp
  have h2: "inputData_loop cd a 2 xs
               = Inr (xs @ [\<lparr>Group = g, req_Address = a, MethodIndex = 2\<rparr>])" for xs
    by (subst inputData_loop.simps) (simp add: Inr h3)
  have h1: "inputData_loop cd a 1 xs
               = Inr (xs @ [\<lparr>Group = g, req_Address = a, MethodIndex = 1\<rparr>,
                            \<lparr>Group = g, req_Address = a, MethodIndex = 2\<rparr>])" for xs
    by (subst inputData_loop.simps) (simp add: Inr h2 del: One_nat_def)
  show ?thesis
    by (subst inputData_loop.simps) (simp add: Inr h1 del: One_nat_def)
qed

text \<open>The rows loop: the first row with an error decides, unless an earlier row panics.\<close>

lemma results_loop_first_error:
  assumes "list_all (\<lambda>r. Error r = None \<and> Returns r \<noteq> []) pre"
    and "Error row = Some msg"
  shows "results_loop (pre @ row # rest) out = Return (Inl (ErrorsNew msg))"
  using assms
  by (induction pre arbitrary: out) (auto simp: index_def split: option.splits)

lemma results_loop_no_output_on_error:
  assumes "row \<in> set rows" and "Error row \<noteq> None"
  shows "results_loop rows out \<noteq> Return (Inr out')"
  using assms
  by (induction rows arbitrary: out) (auto split: option.splits)

lemma results_loop_output:
  "results_loop rows out = Return (Inr out') \<Longrightarrow>
   list_all (\<lambda>r. Error r = None \<and> Returns r \<noteq> []) rows
   \<and> out_Results out' = out_Results out
       @ map (\<lambda>r. \<lparr>ResponseResult = Type r, EmbeddedField = hd (Returns r)\<rparr>) rows"
proof (induction rows arbitrary: out)
  case Nil
  then show ?case by simp
next
  case (Cons row rows)
  from Cons.prems obtain r0 where e: "Error row = None" and r: "index (Returns row) 0 = Some r0"
    by (auto split: option.splits)
  from r have ne: "Returns row \<noteq> []" and hd: "hd (Returns row) = r0"
    by (auto simp: index_def hd_conv_nth split: if_splits)
  from Cons.prems e r
  have "results_loop rows
          (out\<lparr>out_Results := out_Results out
                 @ [\<lparr>ResponseResult = Type row, EmbeddedField = r0\<rparr>]\<rparr>) = Return (Inr out')"
    by simp
  from Cons.IH [OF this] e ne hd show ?case by simp
qed

lemma decodeMulticallRequestToAssets_success:
  assumes "decodeMulticallRequestToAssets cd a b out tr = (Return (asset, None), tr')"
  shows "Blockchain asset = b \<and> Address asset = a"
  using assms
  by (auto simp: decodeMulticallRequestToAssets_def Let_def
      split: option.splits sum.splits prod.splits)

text \<open>
  What \<open>GetTokenInfoForContractDecoded\<close> does with the rows of a decoded response, for
  an address other than the native token's.
\<close>

lemma GetTokenInfoForContractDecoded_rows:
  assumes "a \<noteq> Address (ALPHNativeToken pv)"
    and "groupOfAddress cd a = Inr g"
    and "marshal [\<lparr>Group = g, req_Address = a, MethodIndex = 0\<rparr>,
                  \<lparr>Group = g, req_Address = a, MethodIndex = 1\<rparr>,
                  \<lparr>Group = g, req_Address = a, MethodIndex = 2\<rparr>] = Inr js"
    and "callAPI c env um (NewRequest ''POST'' (NodeURL @ ''/contracts/multicall-contract'') js)
           zero_MulticallContractResponse tr = (None, response, tr1)"
  shows "GetTokenInfoForContractDecoded pv c env cd marshal um a b tr =
     (case results_loop (Results response) \<lparr>out_Address = a, out_Results = []\<rparr> of
        Panic p \<Rightarrow> (Panic p, tr1)
      | Fatal p \<Rightarrow> (Fatal p, tr1)
      | Return (Inl err) \<Rightarrow>
          (Return (None, Some err), tr1 @ [LogError ''failed to get token info'' err])
      | Return (Inr output) \<Rightarrow>
          (case decodeMulticallRequestToAssets cd a b output tr1 of
             (Panic p, tr2) \<Rightarrow> (Panic p, tr2)
           | (Fatal p, tr2) \<Rightarrow> (Fatal p, tr2)
           | (Return (asset, err), tr2) \<Rightarrow> (Return (Some (Ptr_new asset), err), tr2)))"
  using assms
  by (simp add: GetTokenInfoForContractDecoded_def inputData_loop_three Let_def)

text \<open>
  When a row carries an error string and every row before it is a success with at least
  one returned value, the call fails with that error and returns no asset.
\<close>

lemma GetTokenInfoForContractDecoded_error_row:
  assumes "a \<noteq> Address (ALPHNativeToken pv)"
    and "groupOfAddress cd a = Inr g"
    and "marshal [\<lparr>Group = g, req_Address = a, MethodIndex = 0\<rparr>,
                  \<lparr>Group = g, req_Address = a, MethodIndex = 1\<rparr>,
                  \<lparr>Group = g, req_Address = a, MethodIndex = 2\<rparr>] = Inr js"
    and "callAPI c env um (NewRequest ''POST'' (NodeURL @ ''/contracts/multicall-contract'') js)
           zero_MulticallContractResponse tr = (None, response, tr1)"
    and "Results response = pre @ row # rest"
    and "list_all (\<lambda>r. Error r = None \<and> Returns r \<noteq> []) pre"
    and "Error row = Some msg"
  shows "GetTokenInfoForContractDecoded pv c env cd marshal um a b tr =
           (Return (None, Some (ErrorsNew msg)),
            tr1 @ [LogError ''failed to get token info'' (ErrorsNew msg)])"
  unfolding GetTokenInfoForContractDecoded_rows [where marshal = marshal, OF assms(1-4)]
  by (simp add: assms(5) results_loop_first_error [OF assms(6,7)])

text \<open>With an error string in any row, no asset is returned, whole or partial.\<close>

lemma GetTokenInfoForContractDecoded_error_no_asset:
  assumes "a \<noteq> Address (ALPHNativeToken pv)"
    and "groupOfAddress cd a = Inr g"
    and "marshal [\<lparr>Group = g, req_Address = a, MethodIndex = 0\<rparr>,
                  \<lparr>Group = g, req_Address = a, MethodIndex = 1\<rparr>,
                  \<lparr>Group = g, req_Address = a, MethodIndex = 2\<rparr>] = Inr js"
    and "callAPI c env um (NewRequest ''POST'' (NodeURL @ ''/contracts/multicall-contract'') js)
           zero_MulticallContractResponse tr = (None, response, tr1)"
    and "row \<in> set (Results response)"
    and "Error row \<noteq> None"
  shows "fst (GetTokenInfoForContractDecoded pv c env cd marshal um a b tr)
           \<noteq> Return (Some p, err)"
proof -
  have "results_loop (Results response) \<lparr>out_Address = a, out_Results = []\<rparr>
          \<noteq> Return (Inr out')" for out'
    by (rule results_loop_no_output_on_error [OF assms(5,6)])
  then show ?thesis
    unfolding GetTokenInfoForContractDecoded_rows [where marshal = marshal, OF assms(1-4)]
    by (auto split: outcome.splits sum.splits)
qed

lemma example_multicall:
  "GetTokenInfoForContractDecoded initial_package_vars example_client
     (fixed_env (ok_response ''{}'')) hex_codec example_marshal (const_decoder \<lparr>Results = rows\<rparr>) ''token'' b [] =
     (case results_loop rows \<lparr>out_Address = ''token'', out_Results = []\<rparr> of
        Panic p \<Rightarrow>
          (Panic p,
           [HTTPDo (NewRequest ''POST'' (NodeURL @ ''/contracts/multicall-contract'') ''{}''),
            ReadAll, Sleep 300, BodyClose])
      | Fatal p \<Rightarrow>
          (Fatal p,
           [HTTPDo (NewRequest ''POST'' (NodeURL @ ''/contracts/multicall-contract'') ''{}''),
            ReadAll, Sleep 300, BodyClose])
      | Return (Inl err) \<Rightarrow>
          (Return (None, Some err),
           [HTTPDo (NewRequest ''POST'' (NodeURL @ ''/contracts/multicall-contract'') ''{}''),
            ReadAll, Sleep 300, BodyClose, LogError ''failed to get token info'' err])
      | Return (Inr output) \<Rightarrow>
          (case decodeMulticallRequestToAssets hex_codec ''token'' b output
                  [HTTPDo (NewRequest ''POST'' (NodeURL @ ''/contracts/multicall-contract'')
                     ''{}''), ReadAll, Sleep 300, BodyClose] of
             (Panic p, tr2) \<Rightarrow> (Panic p, tr2)
           | (Fatal p, tr2) \<Rightarrow> (Fatal p, tr2)
           | (Return (asset, err), tr2) \<Rightarrow> (Return (Some (Ptr_new asset), err), tr2)))"
proof -
  have n: "''token'' \<noteq> Address (ALPHNativeToken initial_package_vars)"
    by (simp add: initial_package_vars_def)
  have g: "groupOfAddress hex_codec ''token'' = Inr 0"
    by (simp add: hex_codec_def)
  have m: "example_marshal [\<lparr>Group = 0, req_Address = ''token'', MethodIndex = 0\<rparr>,
                  \<lparr>Group = 0, req_Address = ''token'', MethodIndex = 1\<rparr>,
                  \<lparr>Group = 0, req_Address = ''token'', MethodIndex = 2\<rparr>] = Inr ''{}''"
    by (simp add: example_marshal_def)
  have c: "callAPI example_client (fixed_env (ok_response ''{}''))
             (const_decoder \<lparr>Results = rows\<rparr>)
             (NewRequest ''POST'' (NodeURL @ ''/contracts/multicall-contract'') ''{}'')
             zero_MulticallContractResponse []
           = (None, \<lparr>Results = rows\<rparr>,
              [HTTPDo (NewRequest ''POST'' (NodeURL @ ''/contracts/multicall-contract'')
                 ''{}''), ReadAll, Sleep 300, BodyClose])"
    using fixed_env_const_decoder [of "''{}''" "\<lparr>Results = rows\<rparr>" _ _ "[]"] by simp
  show ?thesis
    unfolding GetTokenInfoForContractDecoded_rows [where marshal = example_marshal
        and cd = hex_codec and pv = initial_package_vars, OF n g m c]
    by (simp split: outcome.splits sum.splits)
qed

text \<open>
  Claim C6, at the input where the code departs from it. The third row carries an
  on-chain error string, but the first row is a success with no returned value: the
  unchecked \<open>row.Returns[0]\<close> panics before the error row is reached, so the call does not
  fail with the error of the contract call.
\<close>

theorem GetTokenInfoForContractDecoded_panics_before_error_row:
  "Error (failed ''VM execution error'') = Some ''VM execution error''
   \<and> fst (GetTokenInfoForContractDecoded initial_package_vars example_client
          (fixed_env (ok_response ''{}'')) hex_codec example_marshal
          (const_decoder \<lparr>Results = [succeeded [], succeeded [''4179696e''],
                                      failed ''VM execution error'']\<rparr>)
          ''token'' ''Alephium'' [])
     = Panic index_panic"
  by (simp add: example_multicall succeeded_def failed_def index_def)

text \<open>
  \<open>ParseUint\<close> with base 10 and bit size 32 on a non-empty string of decimal digits:
  it returns the value of the string when that is below \<open>2 ^ 32\<close>, and a range error
  otherwise.
\<close>

lemma decimal_value_ge: "n \<le> decimal_value n s"
proof (induction s arbitrary: n)
  case Nil
  then show ?case by simp
next
  case (Cons c cs)
  have "n \<le> 10 * n + (of_char c - 48)" by simp
  also have "\<dots> \<le> decimal_value (10 * n + (of_char c - 48)) cs" by (rule Cons.IH)
  finally show ?case by simp
qed

lemma digit_of_byte_digit:
  "is_digit c \<Longrightarrow> digit_of_byte c = Some (of_char c - 48) \<and> (of_char c :: nat) - 48 < 10"
  by (auto simp: is_digit_def digit_of_byte_def Let_def)

lemma cutoff10: "2 ^ 32 \<le> maxUint64 div 10 + 1"
  by (simp add: maxUint64_def)

lemma ParseUint_loop_digits:
  assumes "list_all is_digit s" and "n < 2 ^ 32" and "2 ^ 32 \<le> cutoff"
  shows "ParseUint_loop 10 cutoff (2 ^ 32 - 1) n s =
           (if decimal_value n s < 2 ^ 32 then (decimal_value n s, None)
            else (2 ^ 32 - 1, Some ErrRange))"
  using assms
proof (induction s arbitrary: n)
  case Nil
  then show ?case by simp
next
  case (Cons c cs)
  let ?d = "(of_char c :: nat) - 48"
  from Cons.prems have dig: "digit_of_byte c = Some ?d" and d: "?d < 10"
    and rest: "list_all is_digit cs"
    using digit_of_byte_digit [of c] by simp_all
  have small: "n * 10 + ?d < 2 ^ 64"
    using Cons.prems(2) d by simp
  have cut: "\<not> cutoff \<le> n"
    using Cons.prems(2,3) by simp
  have m1: "n * 10 mod 18446744073709551616 = n * 10"
    using small by simp
  have m2: "(n * 10 + ?d) mod 18446744073709551616 = n * 10 + ?d"
    using small by simp
  show ?case
  proof (cases "n * 10 + ?d < 2 ^ 32")
    case True
    from Cons.IH [OF rest True Cons.prems(3)] True d show ?thesis
      by (simp add: dig cut m1 m2 Let_def mult.commute)
  next
    case False
    have "n * 10 + ?d \<le> decimal_value (n * 10 + ?d) cs" by (rule decimal_value_ge)
    with False have "\<not> decimal_value (10 * n + ?d) cs < 2 ^ 32"
      by (simp add: mult.commute)
    with False d show ?thesis
      by (simp add: dig cut m1 m2 Let_def)
  qed
qed

lemma ParseUint_digits:
  assumes "s \<noteq> []" and "list_all is_digit s"
  shows "ParseUint s 10 32 =
           (if decimal_value 0 s < 2 ^ 32 then (decimal_value 0 s, None)
            else (2 ^ 32 - 1, Some (NumError ''ParseUint'' s ErrRange)))"
  using assms(1) ParseUint_loop_digits [OF assms(2) _ cutoff10, of 0]
  by (simp add: ParseUint_def)

text \<open>
  On a digit string whose value is below \<open>2 ^ 32\<close> the decoding succeeds and stores the
  value reduced modulo 256; nothing checks that it fits in eight bits.
\<close>

lemma decodeMulticallRequestToAssets_decimals:
  assumes "out_Results resp = [f0, f1, f2]"
    and "DecodeHex cd (Value (EmbeddedField f0)) = Inr symbol"
    and "DecodeHex cd (Value (EmbeddedField f1)) = Inr name"
    and "Value (EmbeddedField f2) = s"
    and "s \<noteq> []" and "list_all is_digit s" and "decimal_value 0 s < 2 ^ 32"
  shows "decodeMulticallRequestToAssets cd a b resp tr =
           (Return (\<lparr>Symbol = symbol, Name = name, Address = a,
                      Decimals = of_nat (decimal_value 0 s), Blockchain = b\<rparr>, None), tr)
         \<and> unat (of_nat (decimal_value 0 s) :: 8 word) = decimal_value 0 s mod 256"
proof -
  have p: "ParseUint s 10 32 = (decimal_value 0 s, None)"
    using ParseUint_digits [OF assms(5,6)] assms(7) by simp
  have "decodeMulticallRequestToAssets cd a b resp tr =
           (Return (\<lparr>Symbol = symbol, Name = name, Address = a,
                      Decimals = of_nat (decimal_value 0 s), Blockchain = b\<rparr>, None), tr)"
    by (simp add: decodeMulticallRequestToAssets_def assms(1-4) p index_def zero_Asset_def
        SymbolMethod_def NameMethod_def DecimalsMethod_def Let_def)
  moreover have "unat (of_nat (decimal_value 0 s) :: 8 word) = decimal_value 0 s mod 256"
    by (simp add: unat_of_nat)
  ultimately show ?thesis by simp
qed

text \<open>
  Claim C1, at the input where the code departs from it. The decimals string "256" is a
  decimal digit string whose value does not fit in 8 bits; \<open>ParseUint\<close> with bit size 32
  accepts it, and the conversion to \<open>uint8\<close> keeps the low eight bits: the call returns,
  with no error, an asset whose decimals are 0.
\<close>

theorem GetTokenInfoForContractDecoded_decimals_256_truncated:
  "ParseUint ''256'' 10 32 = (256, None)
   \<and> fst (GetTokenInfoForContractDecoded initial_package_vars example_client
          (fixed_env (ok_response ''{}'')) hex_codec example_marshal
          (const_decoder \<lparr>Results = [succeeded [''4159494e''], succeeded [''4179696e''],
                                      succeeded [''256'']]\<rparr>)
          ''token'' ''Alephium'' [])
     = Return (Some (Ptr_new \<lparr>Symbol = ''4159494e'', Name = ''4179696e'',
                               Address = ''token'', Decimals = 0,
                               Blockchain = ''Alephium''\<rparr>), None)"
  unfolding example_multicall
  by (simp add: succeeded_def index_def decodeMulticallRequestToAssets_def
      hex_codec_def is_hex_def zero_Asset_def SymbolMethod_def NameMethod_def
      DecimalsMethod_def ParseUint_def maxUint64_def digit_of_byte_def lower_def Let_def)

text \<open>
  Claim C8, as the code has it. For the address that the package variable
  \<open>ALPHNativeToken\<close> holds, and for every blockchain name, client, environment and
  starting trace, \<open>GetTokenInfoForContractDecoded\<close> returns a pointer to that variable
  with no error and leaves the trace as it was: no request is marshalled or sent,
  nothing is logged, nothing sleeps. When the program starts, the variable holds the
  known native address and the hard-coded native asset, so the call for the known
  address then gives that asset. The variable is not written by the client.
\<close>

theorem GetTokenInfoForContractDecoded_native_short_circuit:
  "(contractAddress = Address (ALPHNativeToken pv) \<longrightarrow>
      GetTokenInfoForContractDecoded pv c env cd marshal um contractAddress blockchain tr
        = (Return (Some Ptr_ALPHNativeToken, None), tr))
   \<and> GetTokenInfoForContractDecoded initial_package_vars c env cd marshal um
        ''tgx7VNFoP9DJiFMFgXXtafQZkUvyEdDHT9ryamHJYrjq'' blockchain tr
        = (Return (Some Ptr_ALPHNativeToken, None), tr)
   \<and> deref initial_package_vars Ptr_ALPHNativeToken
        = \<lparr>Symbol = ''ALPH'', Name = ''Alephium'',
           Address = ''tgx7VNFoP9DJiFMFgXXtafQZkUvyEdDHT9ryamHJYrjq'',
           Decimals = 18, Blockchain = []\<rparr>"
  by (simp add: GetTokenInfoForContractDecoded_def initial_package_vars_def deref_def)

theorem GetTokenInfoForContractDecoded_native_short_circuit_witness:
  "''tgx7VNFoP9DJiFMFgXXtafQZkUvyEdDHT9ryamHJYrjq''
     = Address (ALPHNativeToken (store_through Ptr_ALPHNativeToken
         (\<lambda>a. a\<lparr>Blockchain := ''Alephium''\<rparr>) initial_package_vars))
   \<and> GetTokenInfoForContractDecoded
        (store_through Ptr_ALPHNativeToken (\<lambda>a. a\<lparr>Blockchain := ''Alephium''\<rparr>)
           initial_package_vars)
        example_client (fixed_env (status_response 500 ''busy'')) hex_codec example_marshal
        (const_decoder \<lparr>Results = []\<rparr>) ''tgx7VNFoP9DJiFMFgXXtafQZkUvyEdDHT9ryamHJYrjq''
        ''Alephium'' []
      = (Return (Some Ptr_ALPHNativeToken, None), [])"
proof -
  let ?pv = "store_through Ptr_ALPHNativeToken (\<lambda>a. a\<lparr>Blockchain := ''Alephium''\<rparr>)
               initial_package_vars"
  have a: "''tgx7VNFoP9DJiFMFgXXtafQZkUvyEdDHT9ryamHJYrjq'' = Address (ALPHNativeToken ?pv)"
    by (simp add: store_through_def initial_package_vars_def)
  from GetTokenInfoForContractDecoded_native_short_circuit [where pv = ?pv
      and contractAddress = "''tgx7VNFoP9DJiFMFgXXtafQZkUvyEdDHT9ryamHJYrjq''"
      and c = example_client and env = "fixed_env (status_response 500 ''busy'')"
      and cd = hex_codec and marshal = example_marshal
      and um = "const_decoder \<lparr>Results = []\<rparr>" and blockchain = "''Alephium''"
      and tr = "[]", THEN conjunct1] a
  show ?thesis by blast
qed

text \<open>
  Claim C8 as stated fails: the result is a pointer to a package variable. After a
  caller has written the blockchain name through the result of a first call, a second
  call for the native address returns the same pointer, and the asset behind it is no
  longer the hard-coded one.
\<close>

theorem GetTokenInfoForContractDecoded_native_written_counterexample:
  "fst (GetTokenInfoForContractDecoded initial_package_vars example_client
          (fixed_env (status_response 500 ''busy'')) hex_codec example_marshal
          (const_decoder \<lparr>Results = []\<rparr>) ''tgx7VNFoP9DJiFMFgXXtafQZkUvyEdDHT9ryamHJYrjq''
          ''Alephium'' [])
     = Return (Some Ptr_ALPHNativeToken, None)
   \<and> fst (GetTokenInfoForContractDecoded
          (store_through Ptr_ALPHNativeToken (\<lambda>a. a\<lparr>Blockchain := ''Alephium''\<rparr>)
             initial_package_vars)
          example_client (fixed_env (status_response 500 ''busy'')) hex_codec example_marshal
          (const_decoder \<lparr>Results = []\<rparr>) ''tgx7VNFoP9DJiFMFgXXtafQZkUvyEdDHT9ryamHJYrjq''
          ''Alephium'' [])
     = Return (Some Ptr_ALPHNativeToken, None)
   \<and> deref (store_through Ptr_ALPHNativeToken (\<lambda>a. a\<lparr>Blockchain := ''Alephium''\<rparr>)
              initial_package_vars) Ptr_ALPHNativeToken
     = \<lparr>Symbol = ''ALPH'', Name = ''Alephium'',
        Address = ''tgx7VNFoP9DJiFMFgXXtafQZkUvyEdDHT9ryamHJYrjq'',
        Decimals = 18, Blockchain = ''Alephium''\<rparr>
   \<and> deref (store_through Ptr_ALPHNativeToken (\<lambda>a. a\<lparr>Blockchain := ''Alephium''\<rparr>)
              initial_package_vars) Ptr_ALPHNativeToken
     \<noteq> \<lparr>Symbol = ''ALPH'', Name = ''Alephium'',
        Address = ''tgx7VNFoP9DJiFMFgXXtafQZkUvyEdDHT9ryamHJYrjq'',
        Decimals = 18, Blockchain = []\<rparr>"
  by (simp add: GetTokenInfoForContractDecoded_def store_through_def deref_def
      initial_package_vars_def)

text \<open>
  Claim C10, as the code has it. For the address that the package variable
  \<open>ALPHNativeToken\<close> holds, \<open>GetTokenInfoForContractDecoded\<close> ignores the blockchain
  argument: it returns a pointer to the variable and writes nothing, so the
  \<open>Blockchain\<close> of the returned asset is whatever the variable holds. That is the empty
  string when the program starts. For any other address, an asset returned without
  error is a new one whose \<open>Blockchain\<close> is the caller's argument (and whose \<open>Address\<close>
  is the contract address).
\<close>

theorem Blockchain_set_on_multicall_path_only:
  "(contractAddress = Address (ALPHNativeToken pv) \<longrightarrow>
      fst (GetTokenInfoForContractDecoded pv c env cd marshal um contractAddress blockchain tr)
        = Return (Some Ptr_ALPHNativeToken, None)
      \<and> Blockchain (deref pv Ptr_ALPHNativeToken) = Blockchain (ALPHNativeToken pv))
   \<and> Blockchain (ALPHNativeToken initial_package_vars) = []
   \<and> (contractAddress \<noteq> Address (ALPHNativeToken pv)
        \<and> GetTokenInfoForContractDecoded pv c env cd marshal um contractAddress blockchain tr
            = (Return (Some p, None), tr')
      \<longrightarrow> p \<noteq> Ptr_ALPHNativeToken \<and> Blockchain (deref pv p) = blockchain
          \<and> Address (deref pv p) = contractAddress)"
proof -
  have native: "fst (GetTokenInfoForContractDecoded pv c env cd marshal um contractAddress
      blockchain tr) = Return (Some Ptr_ALPHNativeToken, None)
      \<and> Blockchain (deref pv Ptr_ALPHNativeToken) = Blockchain (ALPHNativeToken pv)"
    if "contractAddress = Address (ALPHNativeToken pv)"
    using that by (simp add: GetTokenInfoForContractDecoded_def deref_def)
  have empty: "Blockchain (ALPHNativeToken initial_package_vars) = []"
    by (simp add: initial_package_vars_def)
  have other: "p \<noteq> Ptr_ALPHNativeToken \<and> Blockchain (deref pv p) = blockchain
      \<and> Address (deref pv p) = contractAddress"
    if "contractAddress \<noteq> Address (ALPHNativeToken pv)"
      and "GetTokenInfoForContractDecoded pv c env cd marshal um contractAddress blockchain tr
            = (Return (Some p, None), tr')"
    using that
    by (auto simp: GetTokenInfoForContractDecoded_def Let_def deref_def
        dest: decodeMulticallRequestToAssets_success
        split: sum.splits prod.splits option.splits outcome.splits)
  from native empty other show ?thesis by blast
qed

theorem Blockchain_set_on_multicall_path_only_witness:
  "fst (GetTokenInfoForContractDecoded initial_package_vars example_client
          (fixed_env (ok_response ''{}'')) hex_codec example_marshal
          (const_decoder \<lparr>Results = []\<rparr>)
          ''tgx7VNFoP9DJiFMFgXXtafQZkUvyEdDHT9ryamHJYrjq'' ''Alephium'' [])
     = Return (Some Ptr_ALPHNativeToken, None)
   \<and> Blockchain (deref initial_package_vars Ptr_ALPHNativeToken) = []
   \<and> ''token'' \<noteq> Address (ALPHNativeToken initial_package_vars)
   \<and> fst (GetTokenInfoForContractDecoded initial_package_vars example_client
          (fixed_env (ok_response ''{}'')) hex_codec example_marshal
          (const_decoder \<lparr>Results = [succeeded [''4159494e''], succeeded [''4179696e''],
                                      succeeded [''18'']]\<rparr>)
          ''token'' ''Alephium'' [])
     = Return (Some (Ptr_new \<lparr>Symbol = ''4159494e'', Name = ''4179696e'', Address = ''token'',
                               Decimals = 18, Blockchain = ''Alephium''\<rparr>), None)
   \<and> Blockchain (deref initial_package_vars
        (Ptr_new \<lparr>Symbol = ''4159494e'', Name = ''4179696e'', Address = ''token'',
                   Decimals = 18, Blockchain = ''Alephium''\<rparr>)) = ''Alephium''"
proof -
  let ?rows = "[succeeded [''4159494e''], succeeded [''4179696e''], succeeded [''18'']]"
  let ?asset = "\<lparr>Symbol = ''4159494e'', Name = ''4179696e'', Address = ''token'',
                  Decimals = 18, Blockchain = ''Alephium''\<rparr>"
  let ?tr = "[HTTPDo (NewRequest ''POST'' (NodeURL @ ''/contracts/multicall-contract'') ''{}''),
              ReadAll, Sleep 300, BodyClose]"
  let ?native = "''tgx7VNFoP9DJiFMFgXXtafQZkUvyEdDHT9ryamHJYrjq''"
  have n: "''token'' \<noteq> Address (ALPHNativeToken initial_package_vars)"
    by (simp add: initial_package_vars_def)
  have a: "?native = Address (ALPHNativeToken initial_package_vars)"
    by (simp add: initial_package_vars_def)
  have run: "GetTokenInfoForContractDecoded initial_package_vars example_client
          (fixed_env (ok_response ''{}'')) hex_codec example_marshal
          (const_decoder \<lparr>Results = ?rows\<rparr>) ''token'' ''Alephium'' []
        = (Return (Some (Ptr_new ?asset), None), ?tr)"
    unfolding example_multicall
    by (simp add: succeeded_def index_def decodeMulticallRequestToAssets_def
      hex_codec_def is_hex_def zero_Asset_def SymbolMethod_def NameMethod_def
      DecimalsMethod_def ParseUint_def maxUint64_def digit_of_byte_def lower_def Let_def)
  note t = Blockchain_set_on_multicall_path_only [where pv = initial_package_vars
      and c = example_client and env = "fixed_env (ok_response ''{}'')" and cd = hex_codec
      and marshal = example_marshal and um = "const_decoder \<lparr>Results = ?rows\<rparr>"
      and blockchain = "''Alephium''" and tr = "[]" and contractAddress = "''token''"
      and p = "Ptr_new ?asset" and tr' = ?tr]
  from t n run have m: "Blockchain (deref initial_package_vars (Ptr_new ?asset)) = ''Alephium''"
    by blast
  note u = Blockchain_set_on_multicall_path_only [where pv = initial_package_vars
      and c = example_client and env = "fixed_env (ok_response ''{}'')" and cd = hex_codec
      and marshal = example_marshal and um = "const_decoder \<lparr>Results = []\<rparr>"
      and blockchain = "''Alephium''" and tr = "[]" and contractAddress = ?native]
  from u a have v: "fst (GetTokenInfoForContractDecoded initial_package_vars example_client
          (fixed_env (ok_response ''{}'')) hex_codec example_marshal
          (const_decoder \<lparr>Results = []\<rparr>) ?native ''Alephium'' [])
        = Return (Some Ptr_ALPHNativeToken, None)
      \<and> Blockchain (deref initial_package_vars Ptr_ALPHNativeToken) = []"
    by simp
  from v n run m show ?thesis by simp
qed

text \<open>
  Claim C10 as stated fails: after a caller has written a blockchain name through a
  result for the native address, the asset returned for the native address has that
  name in \<open>Blockchain\<close>, neither the empty string nor the argument of the call.
\<close>

theorem Blockchain_native_written_counterexample:
  "fst (GetTokenInfoForContractDecoded
          (store_through Ptr_ALPHNativeToken (\<lambda>a. a\<lparr>Blockchain := ''Ethereum''\<rparr>)
             initial_package_vars)
          example_client (fixed_env (ok_response ''{}'')) hex_codec example_marshal
          (const_decoder \<lparr>Results = []\<rparr>) ''tgx7VNFoP9DJiFMFgXXtafQZkUvyEdDHT9ryamHJYrjq''
          ''Alephium'' [])
     = Return (Some Ptr_ALPHNativeToken, None)
   \<and> Blockchain (deref (store_through Ptr_ALPHNativeToken
        (\<lambda>a. a\<lparr>Blockchain := ''Ethereum''\<rparr>) initial_package_vars) Ptr_ALPHNativeToken)
     = ''Ethereum''
   \<and> Blockchain (deref (store_through Ptr_ALPHNativeToken
        (\<lambda>a. a\<lparr>Blockchain := ''Ethereum''\<rparr>) initial_package_vars) Ptr_ALPHNativeToken)
     \<noteq> []"
  by (simp add: GetTokenInfoForContractDecoded_def store_through_def deref_def
      initial_package_vars_def)

subsection \<open>FilterEvents\<close>

lemma FilterEvents_loop_filter:
  "FilterEvents_loop es k acc = acc @ filter (\<lambda>e. EventIndex e = k) es"
  by (induction es arbitrary: acc) simp_all

text \<open>
  Claim C9. \<open>FilterEvents\<close> is a pure function of the event list and the index \<open>k\<close> (it takes
  no trace and has no error or panic result): for every list and every \<open>k\<close> it returns
  exactly the events whose \<open>EventIndex\<close> equals \<open>k\<close>, in their original order, as a
  subsequence of the input, and it returns the empty list on the empty list.
\<close>

theorem FilterEvents_exact_subsequence:
  "FilterEvents es k = filter (\<lambda>e. EventIndex e = k) es
   \<and> subseq (FilterEvents es k) es
   \<and> FilterEvents [] k = []"
  by (simp add: FilterEvents_def FilterEvents_loop_filter)

end
